theory Spec2Isabelle
  imports Main "HOL-Library.AList" "HOL-Library.Char_ord" "HOL-Library.List_Lexorder"
    "HOL-Library.Product_Lexorder"
begin

section \<open>JavaScript values\<close>

text \<open>
  The handlers of \<^verbatim>\<open>index.js\<close> work on untyped data: request fields and the fields
  of stored documents. A value is one of the JSON shapes, or \<open>undefined\<close> (what reading
  an absent property gives). Numbers are the integers and \<open>NaN\<close>; fractions are left out.
\<close>

datatype jsval =
    JUndefined
  | JNull
  | JBool bool
  | JNum int
  | JNaN
  | JStr string
  | JArr "jsval list"
  | JObj "(string \<times> jsval) list"

type_synonym obj = "(string \<times> jsval) list"

text \<open>\<^verbatim>\<open>o.k\<close> on an object literal or on document data: \<open>undefined\<close> when the key is absent.\<close>

definition js_get :: "obj \<Rightarrow> string \<Rightarrow> jsval" where
  "js_get ob k = (case map_of ob k of None \<Rightarrow> JUndefined | Some v \<Rightarrow> v)"

text \<open>
  \<^verbatim>\<open>v?.k\<close> for a key that no prototype supplies (\<^verbatim>\<open>date\<close>): only an object can
  have it; \<open>undefined\<close> and \<open>null\<close> short-circuit, every other value has no such property.
\<close>

definition js_prop :: "jsval \<Rightarrow> string \<Rightarrow> jsval" where
  "js_prop v k = (case v of JObj ob \<Rightarrow> js_get ob k | _ \<Rightarrow> JUndefined)"

text \<open>
  \<^verbatim>\<open>a === b\<close>. The two sides always come from two different snapshot reads, so two
  objects or two arrays are never the same reference; \<open>NaN\<close> equals nothing.
\<close>

fun strict_eq :: "jsval \<Rightarrow> jsval \<Rightarrow> bool" where
  "strict_eq JUndefined JUndefined = True"
| "strict_eq JNull JNull = True"
| "strict_eq (JBool a) (JBool b) = (a = b)"
| "strict_eq (JNum a) (JNum b) = (a = b)"
| "strict_eq (JStr a) (JStr b) = (a = b)"
| "strict_eq _ _ = False"

text \<open>What \<^verbatim>\<open>if (v)\<close> and \<^verbatim>\<open>!v\<close> test.\<close>

fun truthy :: "jsval \<Rightarrow> bool" where
  "truthy JUndefined = False"
| "truthy JNull = False"
| "truthy (JBool b) = b"
| "truthy (JNum n) = (n \<noteq> 0)"
| "truthy JNaN = False"
| "truthy (JStr s) = (s \<noteq> [])"
| "truthy (JArr _) = True"
| "truthy (JObj _) = True"

text \<open>Decimal digits of a natural number, for array indices and for numbers in template strings.\<close>

function show_nat :: "nat \<Rightarrow> string" where
  "show_nat n =
     (if n < 10 then [''0123456789'' ! n]
      else show_nat (n div 10) @ [''0123456789'' ! (n mod 10)])"
  by pat_completeness auto
termination
  by (relation "measure id") auto

declare show_nat.simps [simp del]

definition show_int :: "int \<Rightarrow> string" where
  "show_int i = (if i < 0 then CHR ''-'' # show_nat (nat (- i)) else show_nat (nat i))"

fun join_comma :: "string list \<Rightarrow> string" where
  "join_comma [] = []"
| "join_comma [s] = s"
| "join_comma (s # t # ss) = s @ '','' @ join_comma (t # ss)"

text \<open>
  The string a template literal \<^verbatim>\<open>`${v}`\<close> inserts. (JavaScript prints numbers from
  \<open>10^21\<close> on with an exponent; the model prints every integer in decimal.)
\<close>

fun js_toString :: "jsval \<Rightarrow> string" where
  "js_toString JUndefined = ''undefined''"
| "js_toString JNull = ''null''"
| "js_toString (JBool b) = (if b then ''true'' else ''false'')"
| "js_toString (JNum n) = show_int n"
| "js_toString JNaN = ''NaN''"
| "js_toString (JStr s) = s"
| "js_toString (JArr xs) =
     join_comma (map (\<lambda>x. if x = JNull \<or> x = JUndefined then [] else js_toString x) xs)"
| "js_toString (JObj _) = ''[object Object]''"

text \<open>
  The own enumerable properties of a value, as \<^verbatim>\<open>Object.entries(v)\<close> and the spread
  \<^verbatim>\<open>{...v}\<close> see them: the fields of an object, the indexed elements of an array or
  of a string, nothing for the other values.
\<close>

definition own_entries :: "jsval \<Rightarrow> obj" where
  "own_entries v =
     (case v of
        JObj ob \<Rightarrow> ob
      | JArr xs \<Rightarrow> zip (map show_nat [0..<length xs]) xs
      | JStr s \<Rightarrow> zip (map show_nat [0..<length s]) (map (\<lambda>c. JStr [c]) s)
      | _ \<Rightarrow> [])"

text \<open>
  \<^verbatim>\<open>{...base, ...extra}\<close>: the keys of \<open>extra\<close> are written over \<open>base\<close> one by one;
  a key already there keeps its place and takes the new value.
\<close>

definition obj_spread :: "obj \<Rightarrow> obj \<Rightarrow> obj" where
  "obj_spread base extra = foldl (\<lambda>acc (k, v). AList.update k v acc) base extra"

text \<open>\<^verbatim>\<open>{ id: doc.id, ...doc.data() }\<close>, the shape every snapshot is mapped to.\<close>

definition with_id :: "string \<times> obj \<Rightarrow> obj" where
  "with_id doc = obj_spread [(''id'', JStr (fst doc))] (snd doc)"

section \<open>The document store (Firestore)\<close>

text \<open>
  The store holds documents under paths that alternate collection names and document
  ids: \<^verbatim>\<open>Exams/{title}/Questions/{id}\<close>. Deleting a document does not touch the
  documents below it. The model is the list of the existing documents with their paths.
  The service is taken to be reachable: a call fails where the stored data decide it
  (creating a document that exists) or where the client refuses what it is handed (see
  the section on the store clients).
\<close>

type_synonym path = "string list"
type_synonym fstore = "(path \<times> obj) list"

text \<open>\<^verbatim>\<open>collection(c).get()\<close>: the documents directly in \<open>c\<close>, by ascending id.\<close>

definition collection_docs :: "path \<Rightarrow> fstore \<Rightarrow> (string \<times> obj) list" where
  "collection_docs c fs =
     sort_key fst (map (\<lambda>(p, d). (last p, d)) (filter (\<lambda>(p, d). p \<noteq> [] \<and> butlast p = c) fs))"

definition doc_exists :: "path \<Rightarrow> fstore \<Rightarrow> bool" where
  "doc_exists p fs = (p \<in> set (map fst fs))"

text \<open>\<^verbatim>\<open>docRef.delete()\<close>: succeeds whether or not the document exists.\<close>

definition doc_delete :: "path \<Rightarrow> fstore \<Rightarrow> fstore" where
  "doc_delete p fs = filter (\<lambda>(q, d). q \<noteq> p) fs"

text \<open>
  \<^verbatim>\<open>collection.add(data)\<close> creates a document under an id the client draws; the id is
  a parameter of the model, and the call fails when the id is taken.
\<close>

definition doc_create :: "path \<Rightarrow> obj \<Rightarrow> fstore \<Rightarrow> fstore option" where
  "doc_create p d fs = (if doc_exists p fs then None else Some (fs @ [(p, d)]))"

text \<open>
  The order of \<^verbatim>\<open>orderBy(field)\<close>: by type first (null, booleans, numbers with
  \<open>NaN\<close> lowest, strings, arrays, maps), then by value for booleans, numbers and
  strings. Documents without the field are not returned; equal keys stay in id order.
\<close>

fun order_key :: "jsval \<Rightarrow> nat \<times> int \<times> string" where
  "order_key JUndefined = (0, 0, [])"
| "order_key JNull = (0, 0, [])"
| "order_key (JBool b) = (1, (if b then 1 else 0), [])"
| "order_key JNaN = (2, 0, [])"
| "order_key (JNum n) = (3, n, [])"
| "order_key (JStr s) = (4, 0, s)"
| "order_key (JArr _) = (5, 0, [])"
| "order_key (JObj _) = (6, 0, [])"

definition orderBy :: "string \<Rightarrow> (string \<times> obj) list \<Rightarrow> (string \<times> obj) list" where
  "orderBy field docs =
     sort_key (\<lambda>doc. order_key (js_get (snd doc) field))
       (filter (\<lambda>doc. field \<in> set (map fst (snd doc))) docs)"

section \<open>The key tree (Realtime Database)\<close>

text \<open>
  One JSON tree; a reference is a path of keys into it. An absent node reads as \<open>null\<close>.
\<close>

fun split_path :: "string \<Rightarrow> string \<Rightarrow> string list" where
  "split_path cur [] = (if cur = [] then [] else [cur])"
| "split_path cur (c # cs) =
     (if c = CHR ''/'' then (if cur = [] then split_path [] cs else cur # split_path [] cs)
      else split_path (cur @ [c]) cs)"

definition ref_path :: "string \<Rightarrow> path" where
  "ref_path s = split_path [] s"

fun rt_get :: "path \<Rightarrow> jsval \<Rightarrow> jsval" where
  "rt_get [] t = t"
| "rt_get (k # ks) (JObj ob) = (case map_of ob k of None \<Rightarrow> JNull | Some c \<Rightarrow> rt_get ks c)"
| "rt_get (k # ks) _ = JNull"

fun rt_set :: "path \<Rightarrow> jsval \<Rightarrow> jsval \<Rightarrow> jsval" where
  "rt_set [] v t = v"
| "rt_set (k # ks) v (JObj ob) =
     JObj (AList.update k (rt_set ks v (case map_of ob k of None \<Rightarrow> JNull | Some c \<Rightarrow> c)) ob)"
| "rt_set (k # ks) v _ = JObj [(k, rt_set ks v JNull)]"

section \<open>The store clients\<close>

text \<open>
  The handlers reach the two stores through their Node clients. A client checks what it
  is handed and throws when it refuses it; the \<^verbatim>\<open>catch\<close> block of the handler then
  answers 500, and what was written before the throw stays written. What the clients
  refuse is a parameter of the model, a record of four functions:

    \<^item> \<open>fs_doc cl c s\<close> is \<^verbatim>\<open>collection.doc(s)\<close> on the collection at \<open>c\<close>: the path of
      the document, or the message of the error thrown;
    \<^item> \<open>fs_accepts cl p d\<close> is the check of the data \<open>d\<close> to be written at the document
      \<open>p\<close> (\<^verbatim>\<open>add\<close>, \<^verbatim>\<open>set\<close>): the message of the error when they are refused;
    \<^item> \<open>rt_child cl r s\<close> is \<^verbatim>\<open>ref.child(s)\<close> on the reference \<open>r\<close>, and
      \<^verbatim>\<open>database.ref(s)\<close> when \<open>r\<close> is the root \<open>[]\<close>;
    \<^item> \<open>rt_accepts cl r v\<close> is the check of the value \<open>v\<close> to be \<^verbatim>\<open>set\<close> at \<open>r\<close>.

  The theorems are stated for every client: they hold whatever the clients refuse, as
  long as a refusal is decided by what the call is handed and leaves the store as it was.
  The references the handlers build from constants (\<^verbatim>\<open>collection('Exams')\<close>,
  \<^verbatim>\<open>ref('ExamDateTime')\<close>) are never refused.
\<close>

record client =
  fs_doc :: "path \<Rightarrow> string \<Rightarrow> string + path"
  fs_accepts :: "path \<Rightarrow> obj \<Rightarrow> string option"
  rt_child :: "path \<Rightarrow> string \<Rightarrow> string + path"
  rt_accepts :: "path \<Rightarrow> jsval \<Rightarrow> string option"

subsection \<open>The checks of the Node clients\<close>

text \<open>
  For the examples, a client with the checks of the two Node clients that the requests
  of this development can run into (the messages are abridged).

  The document store takes a relative path that is not empty and has no \<^verbatim>\<open>//\<close>, splits
  it at the slashes, dropping a slash at either end, and wants the path it arrives at to
  name a document: an even number of segments. So \<^verbatim>\<open>collection('Exams').doc('a/b')\<close>
  throws, and \<^verbatim>\<open>doc('Maths/')\<close> is the document \<^verbatim>\<open>Exams/Maths\<close>. It refuses
  data with a field that is \<open>undefined\<close>.
\<close>

fun has_double_slash :: "string \<Rightarrow> bool" where
  "has_double_slash (a # b # s) = ((a = CHR ''/'' \<and> b = CHR ''/'') \<or> has_double_slash (b # s))"
| "has_double_slash _ = False"

definition node_fs_doc :: "path \<Rightarrow> string \<Rightarrow> string + path" where
  "node_fs_doc c s =
     (if s = [] then Inl ''Path must be a non-empty string.''
      else if has_double_slash s then Inl ''Paths must not contain //.''
      else if even (length (c @ ref_path s)) then Inr (c @ ref_path s)
      else Inl ''Your path does not contain an even number of components.'')"

fun has_undefined :: "jsval \<Rightarrow> bool" where
  "has_undefined JUndefined = True"
| "has_undefined (JArr xs) = list_ex has_undefined xs"
| "has_undefined (JObj ob) = list_ex (\<lambda>kv. has_undefined (snd kv)) ob"
| "has_undefined _ = False"

definition node_fs_accepts :: "path \<Rightarrow> obj \<Rightarrow> string option" where
  "node_fs_accepts p d =
     (if has_undefined (JObj d) then Some ''Cannot use undefined as a Firestore value.'' else None)"

text \<open>
  The key tree takes a path that is not empty and has none of the characters
  \<^verbatim>\<open>. # $ [ ]\<close> nor a control character, and splits it at the slashes. It refuses a
  value that holds \<open>undefined\<close> or \<open>NaN\<close>, or an object with a key that is empty or has
  one of these characters or a slash.
\<close>

definition rt_bad_char :: "char \<Rightarrow> bool" where
  "rt_bad_char c = (c \<in> set ''.#$[]'' \<or> c < CHR 0x20 \<or> c = CHR 0x7F)"

definition node_rt_child :: "path \<Rightarrow> string \<Rightarrow> string + path" where
  "node_rt_child r s =
     (if s = [] \<or> list_ex rt_bad_char s
      then Inl ''Paths must be non-empty strings and can not contain ., #, $, [, or ]''
      else Inr (r @ ref_path s))"

definition rt_key_ok :: "string \<Rightarrow> bool" where
  "rt_key_ok k = (k \<noteq> [] \<and> \<not> list_ex (\<lambda>c. rt_bad_char c \<or> c = CHR ''/'') k)"

fun rt_value_ok :: "jsval \<Rightarrow> bool" where
  "rt_value_ok JUndefined = False"
| "rt_value_ok JNaN = False"
| "rt_value_ok (JArr xs) = list_all rt_value_ok xs"
| "rt_value_ok (JObj ob) = list_all (\<lambda>kv. rt_key_ok (fst kv) \<and> rt_value_ok (snd kv)) ob"
| "rt_value_ok _ = True"

definition node_rt_accepts :: "path \<Rightarrow> jsval \<Rightarrow> string option" where
  "node_rt_accepts r v =
     (if rt_value_ok v then None
      else Some ''set failed: the value contains undefined, NaN or an invalid key'')"

definition node_client :: client where
  "node_client =
     \<lparr>fs_doc = node_fs_doc, fs_accepts = node_fs_accepts,
      rt_child = node_rt_child, rt_accepts = node_rt_accepts\<rparr>"

section \<open>Server state and responses\<close>

record store =
  fsdb :: fstore
  rtdb :: jsval

record response =
  status :: nat
  body :: jsval

definition respond :: "nat \<Rightarrow> obj \<Rightarrow> response" where
  "respond code ob = \<lparr>status = code, body = JObj ob\<rparr>"

section \<open>Results aggregation: \<^verbatim>\<open>GET /api/today-exam-results\<close>\<close>

record resultData =
  registrationNumber :: string
  candidateName :: jsval
  phone :: jsval
  totalQuestions :: int
  correctAnswers :: int
  skippedQuestions :: int
  wrongAnswers :: int

text \<open>\<^verbatim>\<open>answers.find(a => a.order === question.order)\<close>: the first such answer.\<close>

definition candidateAnswer :: "obj list \<Rightarrow> obj \<Rightarrow> obj option" where
  "candidateAnswer answers question =
     find (\<lambda>a. strict_eq (js_get a ''order'') (js_get question ''order'')) answers"

text \<open>
  One turn of \<^verbatim>\<open>examQuestions.forEach\<close> on the two counters
  \<open>(correctAnswers, skippedQuestions)\<close>. A found answer is an object, hence truthy:
  \<^verbatim>\<open>!candidateAnswer\<close> holds exactly when nothing was found.
\<close>

fun tallyStep :: "obj list \<Rightarrow> int \<times> int \<Rightarrow> obj \<Rightarrow> int \<times> int" where
  "tallyStep answers (correct, skipped) question =
     (case candidateAnswer answers question of
        None \<Rightarrow> (correct, skipped + 1)
      | Some a \<Rightarrow>
          if truthy (js_get a ''skipped'') then (correct, skipped + 1)
          else if strict_eq (js_get a ''answer'') (js_get question ''correctAnswer'')
          then (correct + 1, skipped)
          else (correct, skipped))"

definition tally :: "obj list \<Rightarrow> obj list \<Rightarrow> int \<times> int" where
  "tally answers examQuestions = foldl (tallyStep answers) (0, 0) examQuestions"

definition candidateResult :: "obj list \<Rightarrow> string \<times> obj \<Rightarrow> obj list \<Rightarrow> resultData" where
  "candidateResult examQuestions candidateDoc answers =
     (let (correct, skipped) = tally answers examQuestions in
      \<lparr>registrationNumber = fst candidateDoc,
       candidateName = js_get (snd candidateDoc) ''candidateName'',
       phone = js_get (snd candidateDoc) ''phone'',
       totalQuestions = int (length examQuestions),
       correctAnswers = correct,
       skippedQuestions = skipped,
       wrongAnswers = int (length examQuestions) - (correct + skipped)\<rparr>)"

definition resultJson :: "resultData \<Rightarrow> obj" where
  "resultJson r =
     [(''registrationNumber'', JStr (registrationNumber r)),
      (''candidateName'', candidateName r),
      (''phone'', phone r),
      (''totalQuestions'', JNum (totalQuestions r)),
      (''correctAnswers'', JNum (correctAnswers r)),
      (''skippedQuestions'', JNum (skippedQuestions r)),
      (''wrongAnswers'', JNum (wrongAnswers r))]"

text \<open>
  Step 1: the first exam document whose \<^verbatim>\<open>dateTime?.date\<close> is today's date, as
  \<^verbatim>\<open>{ id: doc.id, ...examData.dateTime }\<close>, with its questions by ascending order.
\<close>

definition examQuestionsOf :: "string \<Rightarrow> fstore \<Rightarrow> obj list" where
  "examQuestionsOf docId fs =
     map with_id (orderBy ''order'' (collection_docs [''Exams'', docId, ''Questions''] fs))"

fun findTodayExam :: "string \<Rightarrow> fstore \<Rightarrow> (string \<times> obj) list \<Rightarrow> (obj \<times> obj list) option" where
  "findTodayExam today fs [] = None"
| "findTodayExam today fs (doc # docs) =
     (if strict_eq (js_prop (js_get (snd doc) ''dateTime'') ''date'') (JStr today)
      then Some (obj_spread [(''id'', JStr (fst doc))] (own_entries (js_get (snd doc) ''dateTime'')),
                 examQuestionsOf (fst doc) fs)
      else findTodayExam today fs docs)"

text \<open>Step 2: \<^verbatim>\<open>collection('candidates').where('exam', '==', todayExam.id)\<close>.\<close>

definition examCandidates :: "obj \<Rightarrow> fstore \<Rightarrow> (string \<times> obj) list" where
  "examCandidates todayExam fs =
     filter (\<lambda>doc. map_of (snd doc) ''exam'' = Some (js_get todayExam ''id''))
       (collection_docs [''candidates''] fs)"

definition answersOf :: "string \<Rightarrow> fstore \<Rightarrow> obj list" where
  "answersOf candidateId fs =
     map with_id (collection_docs [''candidates'', candidateId, ''answers''] fs)"


text \<open>
  Step 3, the write of one record (lines 783 to 787): the reference
  \<^verbatim>\<open>Results/{todayExam.id}/{candidate id}\<close> and the record with the time of writing,
  or the message of the error the client throws.
\<close>

definition resultWrite ::
  "client \<Rightarrow> obj \<Rightarrow> string \<Rightarrow> string \<Rightarrow> resultData \<Rightarrow> string + path \<times> jsval" where
  "resultWrite cl todayExam nowIso candidateId resultData =
     (case rt_child cl [] (''Results/'' @ js_toString (js_get todayExam ''id'') @ ''/'' @ candidateId) of
        Inl message \<Rightarrow> Inl message
      | Inr resultRef \<Rightarrow>
          (let v = JObj (resultJson resultData @ [(''timestamp'', JStr nowIso)]) in
           case rt_accepts cl resultRef v of
             Some message \<Rightarrow> Inl message
           | None \<Rightarrow> Inr (resultRef, v)))"

text \<open>
  Step 3: the loop over the candidates. Each turn appends the candidate's record to
  \<open>results\<close> and then writes it to the key tree. A write the client refuses throws:
  the loop ends there, with the records built and the key tree written so far.
\<close>

datatype outcome = Done | Thrown string

fun processCandidates ::
  "client \<Rightarrow> obj \<Rightarrow> obj list \<Rightarrow> string \<Rightarrow> fstore \<Rightarrow> (string \<times> obj) list \<Rightarrow>
     resultData list \<times> jsval \<Rightarrow> outcome \<times> resultData list \<times> jsval" where
  "processCandidates cl todayExam examQuestions nowIso fs [] (results, db) = (Done, results, db)"
| "processCandidates cl todayExam examQuestions nowIso fs (candidateDoc # docs) (results, db) =
     (let answers = answersOf (fst candidateDoc) fs;
          resultData = candidateResult examQuestions candidateDoc answers
      in case resultWrite cl todayExam nowIso (fst candidateDoc) resultData of
           Inl message \<Rightarrow> (Thrown message, results @ [resultData], db)
         | Inr (resultRef, v) \<Rightarrow>
             processCandidates cl todayExam examQuestions nowIso fs docs
               (results @ [resultData], rt_set resultRef v db))"

text \<open>
  The handler. \<open>today\<close> is \<^verbatim>\<open>moment().format('YYYY-MM-DD')\<close> and \<open>nowIso\<close> the
  clock reading \<^verbatim>\<open>new Date().toISOString()\<close>; both are inputs of the model.
  \<open>aggregateToday\<close> is the handler up to its answer: today's exam, how the loop ended,
  the list \<open>results\<close> and the key tree after the writes; or nothing when no exam is today.
\<close>

definition aggregateToday ::
  "client \<Rightarrow> string \<Rightarrow> string \<Rightarrow> store \<Rightarrow> (obj \<times> outcome \<times> resultData list \<times> jsval) option" where
  "aggregateToday cl today nowIso st =
     (case findTodayExam today (fsdb st) (collection_docs [''Exams''] (fsdb st)) of
        None \<Rightarrow> None
      | Some (todayExam, examQuestions) \<Rightarrow>
          Some (todayExam,
                processCandidates cl todayExam examQuestions nowIso (fsdb st)
                  (examCandidates todayExam (fsdb st)) ([], rtdb st)))"

definition computeTodayResults :: "client \<Rightarrow> string \<Rightarrow> string \<Rightarrow> store \<Rightarrow> response \<times> store" where
  "computeTodayResults cl today nowIso st =
     (case aggregateToday cl today nowIso st of
        None \<Rightarrow>
          (respond 404 [(''success'', JBool False), (''message'', JStr ''No exam found for today'')],
           st)
      | Some (todayExam, Done, results, db) \<Rightarrow>
          (respond 200
             [(''success'', JBool True),
              (''examDetails'', JObj
                 [(''examName'', js_get todayExam ''id''),
                  (''date'', js_get todayExam ''date''),
                  (''startTime'', js_get todayExam ''startTime''),
                  (''endTime'', js_get todayExam ''endTime''),
                  (''totalMarks'', js_get todayExam ''marks'')]),
              (''results'', JArr (map (\<lambda>r. JObj (resultJson r)) results))],
           st\<lparr>rtdb := db\<rparr>)
      | Some (todayExam, Thrown message, results, db) \<Rightarrow>
          (respond 500
             [(''success'', JBool False),
              (''error'', JStr ''Failed to fetch exam results''),
              (''details'', JStr message)],
           st\<lparr>rtdb := db\<rparr>))"

text \<open>The list \<open>results\<close> alone: the records the loop has built when the handler answers.\<close>

definition todayResults :: "client \<Rightarrow> string \<Rightarrow> string \<Rightarrow> store \<Rightarrow> resultData list option" where
  "todayResults cl today nowIso st =
     map_option (\<lambda>(todayExam, outcome, results, db). results) (aggregateToday cl today nowIso st)"

text \<open>
  The write of a candidate's record goes through; and the candidates the loop gets to:
  those before the first one whose write is refused, and that one.
\<close>

definition writeAccepted ::
  "client \<Rightarrow> obj \<Rightarrow> obj list \<Rightarrow> string \<Rightarrow> fstore \<Rightarrow> string \<times> obj \<Rightarrow> bool" where
  "writeAccepted cl todayExam examQuestions nowIso fs candidateDoc =
     (\<not> isl (resultWrite cl todayExam nowIso (fst candidateDoc)
               (candidateResult examQuestions candidateDoc (answersOf (fst candidateDoc) fs))))"

definition reached ::
  "client \<Rightarrow> obj \<Rightarrow> obj list \<Rightarrow> string \<Rightarrow> fstore \<Rightarrow> (string \<times> obj) list \<Rightarrow> (string \<times> obj) list" where
  "reached cl todayExam examQuestions nowIso fs docs =
     take (Suc (length (takeWhile (writeAccepted cl todayExam examQuestions nowIso fs) docs))) docs"

subsection \<open>The verdict on one question, in the words of the specification\<close>

text \<open>
  Section 4.3, step 5: if no matching answer exists, or the matching answer is flagged
  skipped, the question counts as skipped; else if the answer is the question's correct
  answer, as correct; else it counts toward wrong.
\<close>

datatype verdict = Skipped | Correct | Wrong

definition spec_verdict :: "obj list \<Rightarrow> obj \<Rightarrow> verdict" where
  "spec_verdict answers question =
     (case find (\<lambda>a. strict_eq (js_get a ''order'') (js_get question ''order'')) answers of
        None \<Rightarrow> Skipped
      | Some a \<Rightarrow>
          if truthy (js_get a ''skipped'') then Skipped
          else if strict_eq (js_get a ''answer'') (js_get question ''correctAnswer'') then Correct
          else Wrong)"

definition count_verdict :: "verdict \<Rightarrow> obj list \<Rightarrow> obj list \<Rightarrow> int" where
  "count_verdict v answers examQuestions =
     int (length (filter (\<lambda>q. spec_verdict answers q = v) examQuestions))"

subsection \<open>The loop computes the verdict counts\<close>

lemma tallyStep_verdict:
  "tallyStep answers (c, s) q =
     (c + (if spec_verdict answers q = Correct then 1 else 0),
      s + (if spec_verdict answers q = Skipped then 1 else 0))"
  by (simp add: spec_verdict_def candidateAnswer_def split: option.split)

lemma foldl_tallyStep:
  "foldl (tallyStep answers) (c, s) qs =
     (c + count_verdict Correct answers qs, s + count_verdict Skipped answers qs)"
proof (induction qs arbitrary: c s)
  case Nil
  show ?case by (simp add: count_verdict_def)
next
  case (Cons q qs)
  show ?case
    unfolding foldl_Cons tallyStep_verdict Cons.IH
    by (simp add: count_verdict_def)
qed

lemma tally_counts:
  "tally answers qs = (count_verdict Correct answers qs, count_verdict Skipped answers qs)"
  by (simp add: tally_def foldl_tallyStep)

lemma count_verdict_total:
  "count_verdict Correct answers qs + count_verdict Skipped answers qs
     + count_verdict Wrong answers qs = int (length qs)"
proof (induction qs)
  case Nil
  show ?case by (simp add: count_verdict_def)
next
  case (Cons q qs)
  then show ?case
    by (cases "spec_verdict answers q") (simp_all add: count_verdict_def)
qed

lemma count_verdict_nonneg: "0 \<le> count_verdict v answers qs"
  by (simp add: count_verdict_def)

lemma candidateResult_fields:
  "registrationNumber (candidateResult qs c answers) = fst c"
  "candidateName (candidateResult qs c answers) = js_get (snd c) ''candidateName''"
  "phone (candidateResult qs c answers) = js_get (snd c) ''phone''"
  "totalQuestions (candidateResult qs c answers) = int (length qs)"
  "correctAnswers (candidateResult qs c answers) = count_verdict Correct answers qs"
  "skippedQuestions (candidateResult qs c answers) = count_verdict Skipped answers qs"
  "wrongAnswers (candidateResult qs c answers) =
     int (length qs) - (count_verdict Correct answers qs + count_verdict Skipped answers qs)"
  by (simp_all add: candidateResult_def tally_counts)


lemma processCandidates_outcome:
  "fst (processCandidates cl todayExam qs nowIso fs cands (results, db)) = Done \<longleftrightarrow>
     (\<forall>c \<in> set cands. writeAccepted cl todayExam qs nowIso fs c)"
  by (induction cands arbitrary: results db)
     (auto simp: Let_def writeAccepted_def split: sum.splits)

lemma processCandidates_results:
  "fst (snd (processCandidates cl todayExam qs nowIso fs cands (results, db))) =
     results @ map (\<lambda>c. candidateResult qs c (answersOf (fst c) fs))
                 (reached cl todayExam qs nowIso fs cands)"
  by (induction cands arbitrary: results db)
     (auto simp: Let_def writeAccepted_def reached_def split: sum.splits)

lemma reached_all:
  "(\<forall>c \<in> set cands. writeAccepted cl todayExam qs nowIso fs c) \<Longrightarrow>
     reached cl todayExam qs nowIso fs cands = cands"
  by (simp add: reached_def takeWhile_eq_all_conv [THEN iffD2])

lemma reached_subset: "set (reached cl todayExam qs nowIso fs cands) \<subseteq> set cands"
  unfolding reached_def by (rule set_take_subset)

lemma todayResults_Some:
  assumes "findTodayExam today (fsdb st) (collection_docs [''Exams''] (fsdb st))
             = Some (todayExam, qs)"
  shows "todayResults cl today nowIso st =
           Some (map (\<lambda>c. candidateResult qs c (answersOf (fst c) (fsdb st)))
                   (reached cl todayExam qs nowIso (fsdb st) (examCandidates todayExam (fsdb st))))"
  using assms
    processCandidates_results [of cl todayExam qs nowIso "fsdb st" _ "[]" "rtdb st"]
  by (simp add: todayResults_def aggregateToday_def split_beta)

lemma todayResults_cases:
  assumes "todayResults cl today nowIso st = Some results"
  obtains todayExam qs where
    "findTodayExam today (fsdb st) (collection_docs [''Exams''] (fsdb st)) = Some (todayExam, qs)"
    "results = map (\<lambda>c. candidateResult qs c (answersOf (fst c) (fsdb st)))
                 (reached cl todayExam qs nowIso (fsdb st) (examCandidates todayExam (fsdb st)))"
proof (cases "findTodayExam today (fsdb st) (collection_docs [''Exams''] (fsdb st))")
  case None
  with assms show ?thesis by (simp add: todayResults_def aggregateToday_def)
next
  case (Some found)
  obtain todayExam qs where found: "found = (todayExam, qs)" by (cases found)
  from Some found todayResults_Some [of today st todayExam qs cl nowIso] assms that
  show ?thesis by simp
qed

lemma computeTodayResults_not_found:
  "findTodayExam today (fsdb st) (collection_docs [''Exams''] (fsdb st)) = None \<Longrightarrow>
     computeTodayResults cl today nowIso st =
       (respond 404 [(''success'', JBool False), (''message'', JStr ''No exam found for today'')], st)"
  by (simp add: computeTodayResults_def aggregateToday_def)

lemma computeTodayResults_status:
  assumes "findTodayExam today (fsdb st) (collection_docs [''Exams''] (fsdb st))
             = Some (todayExam, qs)"
  shows "status (fst (computeTodayResults cl today nowIso st)) =
           (if \<forall>c \<in> set (examCandidates todayExam (fsdb st)).
                 writeAccepted cl todayExam qs nowIso (fsdb st) c
            then 200 else 500)"
proof -
  let ?run = "processCandidates cl todayExam qs nowIso (fsdb st)
                (examCandidates todayExam (fsdb st)) ([], rtdb st)"
  obtain out results db where run: "?run = (out, results, db)" by (cases ?run)
  have "out = Done \<longleftrightarrow> (\<forall>c \<in> set (examCandidates todayExam (fsdb st)).
                 writeAccepted cl todayExam qs nowIso (fsdb st) c)"
    using processCandidates_outcome [of cl todayExam qs nowIso "fsdb st"
        "examCandidates todayExam (fsdb st)" "[]" "rtdb st"]
    by (simp add: run)
  then show ?thesis
    using assms run
    by (cases out) (simp_all add: computeTodayResults_def aggregateToday_def respond_def)
qed

lemma computeTodayResults_results:
  assumes "todayResults cl today nowIso st = Some results"
    and "status (fst (computeTodayResults cl today nowIso st)) = 200"
  shows "js_prop (body (fst (computeTodayResults cl today nowIso st))) ''results''
           = JArr (map (\<lambda>r. JObj (resultJson r)) results)"
proof -
  from assms(1) obtain todayExam out db where
    agg: "aggregateToday cl today nowIso st = Some (todayExam, out, results, db)"
    by (auto simp: todayResults_def)
  with assms(2) show ?thesis
    by (cases out) (simp_all add: computeTodayResults_def respond_def js_prop_def js_get_def)
qed

lemma examQuestions_sorted:
  "\<exists>docs. examQuestionsOf docId fs = map with_id docs \<and>
          sorted (map (\<lambda>doc. order_key (js_get (snd doc) ''order'')) docs)"
  unfolding examQuestionsOf_def orderBy_def
  by (rule exI, rule conjI, rule refl, rule sorted_sort_key)

lemma findTodayExam_questions:
  "findTodayExam today fs docs = Some (todayExam, qs) \<Longrightarrow>
     \<exists>docId. docId \<in> set (map fst docs) \<and> qs = examQuestionsOf docId fs"
  by (induction docs) (auto split: if_splits)

definition verdict_result :: "obj list \<Rightarrow> string \<times> obj \<Rightarrow> obj list \<Rightarrow> resultData" where
  "verdict_result examQuestions candidateDoc answers =
     \<lparr>registrationNumber = fst candidateDoc,
      candidateName = js_get (snd candidateDoc) ''candidateName'',
      phone = js_get (snd candidateDoc) ''phone'',
      totalQuestions = int (length examQuestions),
      correctAnswers = count_verdict Correct answers examQuestions,
      skippedQuestions = count_verdict Skipped answers examQuestions,
      wrongAnswers = count_verdict Wrong answers examQuestions\<rparr>"

lemma candidateResult_verdict: "candidateResult qs c answers = verdict_result qs c answers"
  using count_verdict_total [of answers qs]
  by (simp add: candidateResult_def tally_counts verdict_result_def)


text \<open>
  Claim C1. When an exam is scheduled for today, its questions are the result of the
  query ordered by \<open>order\<close>. For every candidate and every list of answers, the
  record the loop body computes is the one in which \<open>skippedQuestions\<close> is the number
  of questions with no answer of the same \<open>order\<close> or with a first such answer
  flagged skipped, \<open>correctAnswers\<close> the number of the other questions whose answer
  is the question's \<open>correctAnswer\<close>, and \<open>wrongAnswers\<close> (computed by
  subtraction only) the number of the remaining ones. The handler's result list has that
  record for every candidate the loop gets to, in the order of the candidates; when the
  handler answers 200 these are all the candidates of the exam.
\<close>

theorem today_results_by_verdict:
  assumes "findTodayExam today (fsdb st) (collection_docs [''Exams''] (fsdb st))
             = Some (todayExam, examQuestions)"
  shows "(\<exists>docs. examQuestions = map with_id docs \<and>
            sorted (map (\<lambda>doc. order_key (js_get (snd doc) ''order'')) docs)) \<and>
         (\<forall>candidateDoc answers.
            candidateResult examQuestions candidateDoc answers
              = verdict_result examQuestions candidateDoc answers) \<and>
         todayResults cl today nowIso st =
           Some (map (\<lambda>c. verdict_result examQuestions c (answersOf (fst c) (fsdb st)))
                   (reached cl todayExam examQuestions nowIso (fsdb st)
                      (examCandidates todayExam (fsdb st)))) \<and>
         (status (fst (computeTodayResults cl today nowIso st)) = 200 \<longrightarrow>
            todayResults cl today nowIso st =
              Some (map (\<lambda>c. verdict_result examQuestions c (answersOf (fst c) (fsdb st)))
                      (examCandidates todayExam (fsdb st))))"
proof -
  from findTodayExam_questions [OF assms] obtain docId
    where "examQuestions = examQuestionsOf docId (fsdb st)" by blast
  with examQuestions_sorted [of docId "fsdb st"]
  have "\<exists>docs. examQuestions = map with_id docs \<and>
          sorted (map (\<lambda>doc. order_key (js_get (snd doc) ''order'')) docs)"
    by simp
  moreover have res: "todayResults cl today nowIso st =
           Some (map (\<lambda>c. verdict_result examQuestions c (answersOf (fst c) (fsdb st)))
                   (reached cl todayExam examQuestions nowIso (fsdb st)
                      (examCandidates todayExam (fsdb st))))"
    by (simp add: todayResults_Some [OF assms] candidateResult_verdict)
  moreover have "todayResults cl today nowIso st =
              Some (map (\<lambda>c. verdict_result examQuestions c (answersOf (fst c) (fsdb st)))
                      (examCandidates todayExam (fsdb st)))"
    if "status (fst (computeTodayResults cl today nowIso st)) = 200"
  proof -
    from that computeTodayResults_status [OF assms, of cl nowIso]
    have "\<forall>c \<in> set (examCandidates todayExam (fsdb st)).
            writeAccepted cl todayExam examQuestions nowIso (fsdb st) c"
      by (simp split: if_splits)
    then show ?thesis
      using res by (simp add: reached_all)
  qed
  moreover note candidateResult_verdict
  ultimately show ?thesis by blast
qed

text \<open>
  Claim C2. Every record of the handler's result list satisfies
  \<open>wrongAnswers = totalQuestions - (correctAnswers + skippedQuestions)\<close>, and the
  records of a 200 answer are those of the result list.
\<close>

theorem result_wrong_derived:
  assumes "todayResults cl today nowIso st = Some results"
  shows "(\<forall>r \<in> set results.
            wrongAnswers r = totalQuestions r - (correctAnswers r + skippedQuestions r)) \<and>
         (status (fst (computeTodayResults cl today nowIso st)) = 200 \<longrightarrow>
            js_prop (body (fst (computeTodayResults cl today nowIso st))) ''results''
              = JArr (map (\<lambda>r. JObj (resultJson r)) results))"
proof -
  from assms obtain todayExam qs where
    "results = map (\<lambda>c. candidateResult qs c (answersOf (fst c) (fsdb st)))
                 (reached cl todayExam qs nowIso (fsdb st) (examCandidates todayExam (fsdb st)))"
    by (rule todayResults_cases)
  then have "\<forall>r \<in> set results.
            wrongAnswers r = totalQuestions r - (correctAnswers r + skippedQuestions r)"
    by (auto simp: candidateResult_fields)
  then show ?thesis
    using computeTodayResults_results [OF assms] by blast
qed

text \<open>
  Claim C10. In every record of the result list \<open>correctAnswers\<close> and
  \<open>skippedQuestions\<close> are not negative, their sum is at most \<open>totalQuestions\<close>,
  and so \<open>wrongAnswers\<close> is not negative.
\<close>

theorem result_counts_bounded:
  assumes "todayResults cl today nowIso st = Some results"
  shows "\<forall>r \<in> set results.
           0 \<le> correctAnswers r \<and> 0 \<le> skippedQuestions r \<and>
           correctAnswers r + skippedQuestions r \<le> totalQuestions r \<and>
           0 \<le> wrongAnswers r"
proof -
  from assms obtain todayExam qs where
    res: "results = map (\<lambda>c. candidateResult qs c (answersOf (fst c) (fsdb st)))
                 (reached cl todayExam qs nowIso (fsdb st) (examCandidates todayExam (fsdb st)))"
    by (rule todayResults_cases)
  have "0 \<le> correctAnswers r \<and> 0 \<le> skippedQuestions r \<and>
        correctAnswers r + skippedQuestions r \<le> totalQuestions r \<and> 0 \<le> wrongAnswers r"
    if "r = candidateResult qs c answers" for r c answers
    using count_verdict_total [of answers qs] count_verdict_nonneg [of Wrong answers qs]
      count_verdict_nonneg [of Correct answers qs] count_verdict_nonneg [of Skipped answers qs]
    by (simp add: that candidateResult_fields)
  with res show ?thesis by auto
qed



subsection \<open>A store with one exam today, three questions and two candidates\<close>

definition demo_store :: store where
  "demo_store =
     \<lparr>fsdb =
        [([''Exams'', ''Maths''],
            [(''dateTime'', JObj [(''date'', JStr ''2025-01-15''), (''startTime'', JStr ''1:00 PM''),
                                 (''endTime'', JStr ''2:00 PM''), (''marks'', JNum 3), (''price'', JNum 10)])]),
         ([''Exams'', ''Maths'', ''Questions'', ''qb''],
            [(''question'', JStr ''B?''), (''correctAnswer'', JNum 2), (''order'', JNum 2)]),
         ([''Exams'', ''Maths'', ''Questions'', ''qa''],
            [(''question'', JStr ''A?''), (''correctAnswer'', JNum 0), (''order'', JNum 1)]),
         ([''Exams'', ''Maths'', ''Questions'', ''qc''],
            [(''question'', JStr ''C?''), (''correctAnswer'', JNum 3), (''order'', JNum 3)]),
         ([''candidates'', ''R1''],
            [(''candidateName'', JStr ''Asha''), (''phone'', JStr ''111''), (''exam'', JStr ''Maths'')]),
         ([''candidates'', ''R1'', ''answers'', ''a1''],
            [(''order'', JNum 1), (''answer'', JNum 0), (''skipped'', JBool False)]),
         ([''candidates'', ''R1'', ''answers'', ''a2''],
            [(''order'', JNum 2), (''answer'', JNum 1), (''skipped'', JBool False)]),
         ([''candidates'', ''R2''],
            [(''candidateName'', JStr ''Ravi''), (''phone'', JStr ''222''), (''exam'', JStr ''Maths'')])],
      rtdb = JNull\<rparr>"

definition demo_exam :: obj where
  "demo_exam =
     [(''id'', JStr ''Maths''), (''date'', JStr ''2025-01-15''), (''startTime'', JStr ''1:00 PM''),
      (''endTime'', JStr ''2:00 PM''), (''marks'', JNum 3), (''price'', JNum 10)]"

definition demo_questions :: "obj list" where
  "demo_questions =
     [[(''id'', JStr ''qa''), (''question'', JStr ''A?''), (''correctAnswer'', JNum 0), (''order'', JNum 1)],
      [(''id'', JStr ''qb''), (''question'', JStr ''B?''), (''correctAnswer'', JNum 2), (''order'', JNum 2)],
      [(''id'', JStr ''qc''), (''question'', JStr ''C?''), (''correctAnswer'', JNum 3), (''order'', JNum 3)]]"

definition demo_results :: "resultData list" where
  "demo_results =
     [\<lparr>registrationNumber = ''R1'', candidateName = JStr ''Asha'', phone = JStr ''111'',
       totalQuestions = 3, correctAnswers = 1, skippedQuestions = 1, wrongAnswers = 1\<rparr>,
      \<lparr>registrationNumber = ''R2'', candidateName = JStr ''Ravi'', phone = JStr ''222'',
       totalQuestions = 3, correctAnswers = 0, skippedQuestions = 3, wrongAnswers = 0\<rparr>]"


lemma demo_findTodayExam:
  "findTodayExam ''2025-01-15'' (fsdb demo_store) (collection_docs [''Exams''] (fsdb demo_store))
     = Some (demo_exam, demo_questions)"
  by code_simp

lemma demo_todayResults:
  "todayResults node_client ''2025-01-15'' ''t'' demo_store = Some demo_results"
  by code_simp

lemma demo_status:
  "status (fst (computeTodayResults node_client ''2025-01-15'' ''t'' demo_store)) = 200"
  by code_simp





theorem today_results_by_verdict_witness:
  "findTodayExam ''2025-01-15'' (fsdb demo_store) (collection_docs [''Exams''] (fsdb demo_store))
     = Some (demo_exam, demo_questions) \<and>
   status (fst (computeTodayResults node_client ''2025-01-15'' ''t'' demo_store)) = 200 \<and>
   map (\<lambda>c. verdict_result demo_questions c (answersOf (fst c) (fsdb demo_store)))
     (examCandidates demo_exam (fsdb demo_store)) = demo_results"
  using today_results_by_verdict [OF demo_findTodayExam, of node_client "''t''"]
  by (simp add: demo_findTodayExam demo_todayResults demo_status)

theorem result_wrong_derived_witness:
  "todayResults node_client ''2025-01-15'' ''t'' demo_store = Some demo_results \<and>
   wrongAnswers (demo_results ! 0) =
     totalQuestions (demo_results ! 0)
       - (correctAnswers (demo_results ! 0) + skippedQuestions (demo_results ! 0)) \<and>
   wrongAnswers (demo_results ! 1) =
     totalQuestions (demo_results ! 1)
       - (correctAnswers (demo_results ! 1) + skippedQuestions (demo_results ! 1)) \<and>
   status (fst (computeTodayResults node_client ''2025-01-15'' ''t'' demo_store)) = 200 \<and>
   js_prop (body (fst (computeTodayResults node_client ''2025-01-15'' ''t'' demo_store))) ''results''
     = JArr (map (\<lambda>r. JObj (resultJson r)) demo_results)"
  using result_wrong_derived [OF demo_todayResults]
  by (simp add: demo_todayResults demo_status demo_results_def)

theorem result_counts_bounded_witness:
  "todayResults node_client ''2025-01-15'' ''t'' demo_store = Some demo_results \<and>
   list_all (\<lambda>r. 0 \<le> correctAnswers r \<and> 0 \<le> skippedQuestions r \<and>
                 correctAnswers r + skippedQuestions r \<le> totalQuestions r \<and>
                 0 \<le> wrongAnswers r) demo_results"
  using result_counts_bounded [OF demo_todayResults]
  by (simp add: demo_todayResults list_all_iff)


text \<open>
  With the checks of the Node clients given above, whether a candidate's record is
  written is decided by the ids of the exam and of the candidate and by the candidate's
  name and phone: the answers play no part in it.
\<close>

lemma result_keys_ok:
  "rt_key_ok ''registrationNumber''" "rt_key_ok ''candidateName''" "rt_key_ok ''phone''"
  "rt_key_ok ''totalQuestions''" "rt_key_ok ''correctAnswers''" "rt_key_ok ''skippedQuestions''"
  "rt_key_ok ''wrongAnswers''" "rt_key_ok ''timestamp''"
  by code_simp+

lemma node_client_writeAccepted:
  "writeAccepted node_client todayExam qs nowIso fs c \<longleftrightarrow>
     \<not> isl (node_rt_child [] (''Results/'' @ js_toString (js_get todayExam ''id'') @ ''/'' @ fst c)) \<and>
     rt_value_ok (js_get (snd c) ''candidateName'') \<and> rt_value_ok (js_get (snd c) ''phone'')"
  by (auto simp: writeAccepted_def resultWrite_def node_client_def node_rt_accepts_def Let_def
      resultJson_def candidateResult_fields result_keys_ok split: sum.splits)

section \<open>Question management\<close>

text \<open>
  The request of \<^verbatim>\<open>POST /api/exams/:examTitle/questions\<close>: the route parameter, the
  fields of the body (\<open>undefined\<close> when absent; text fields of a multipart body are
  strings) and the uploaded file, if any, as its MIME type and the base64 text of its
  bytes.
\<close>

record question_req =
  p_examTitle :: string
  b_question :: jsval
  b_options :: jsval
  b_correctAnswer :: jsval
  f_image :: "(string \<times> string) option"

text \<open>
  Strings are lists of code units; the model has the code units below 256. Of these,
  \<^verbatim>\<open>parseInt\<close> skips and \<^verbatim>\<open>\s\<close> matches: tab, line feed, vertical tab, form feed,
  carriage return, space and no-break space.
\<close>

definition js_whitespace :: "char \<Rightarrow> bool" where
  "js_whitespace c =
     (c \<in> set [CHR 0x09, CHR 0x0A, CHR 0x0B, CHR 0x0C, CHR 0x0D, CHR 0x20, CHR 0xA0])"

definition is_digit :: "char \<Rightarrow> bool" where
  "is_digit c = (CHR ''0'' \<le> c \<and> c \<le> CHR ''9'')"

definition digits_value :: "string \<Rightarrow> int" where
  "digits_value ds = foldl (\<lambda>acc c. 10 * acc + (of_char c - 48)) 0 ds"

text \<open>
  \<^verbatim>\<open>parseInt(v, 10)\<close> on the string of \<open>v\<close>: leading white space is skipped, one sign
  is read, then the longest run of decimal digits; what follows is ignored. Without a
  digit the result is \<open>NaN\<close>. (The model keeps every digit; JavaScript rounds to a double.)
\<close>

definition parseInt :: "jsval \<Rightarrow> jsval" where
  "parseInt v =
     (let t = dropWhile js_whitespace (js_toString v);
          (sign, u) = (case t of
                         c # r \<Rightarrow> if c = CHR ''-'' then (- 1, r)
                                  else if c = CHR ''+'' then (1, r) else (1, t)
                       | [] \<Rightarrow> (1, t));
          z = takeWhile is_digit u
      in if z = [] then JNaN else JNum (sign * digits_value z))"

definition isNaN :: "jsval \<Rightarrow> bool" where
  "isNaN v = (v = JNaN)"

definition Array_isArray :: "jsval \<Rightarrow> bool" where
  "Array_isArray v = (case v of JArr xs \<Rightarrow> True | _ \<Rightarrow> False)"

text \<open>\<^verbatim>\<open>v.length\<close>, read only after \<^verbatim>\<open>Array.isArray(v)\<close> has held.\<close>

definition array_length :: "jsval \<Rightarrow> nat" where
  "array_length v = (case v of JArr xs \<Rightarrow> length xs | _ \<Rightarrow> 0)"


text \<open>
  \<^verbatim>\<open>firestore.collection("Exams").doc(examTitle).collection("Questions")\<close>: the
  collection of the exam's questions, or the message of the error \<^verbatim>\<open>doc\<close> throws.
\<close>

definition questionsCollection :: "client \<Rightarrow> string \<Rightarrow> string + path" where
  "questionsCollection cl examTitle =
     (case fs_doc cl [''Exams''] examTitle of
        Inl message \<Rightarrow> Inl message
      | Inr examCollection \<Rightarrow> Inr (examCollection @ [''Questions'']))"

text \<open>
  The stored document: the validated fields, the order, the creation time, and the
  uploaded image, if any, as a data URI.
\<close>

definition questionData :: "question_req \<Rightarrow> jsval \<Rightarrow> jsval \<Rightarrow> int \<Rightarrow> int \<Rightarrow> obj" where
  "questionData req parsedOptions parsedCorrectAnswer nextOrder now =
     [(''question'', b_question req),
      (''options'', parsedOptions),
      (''correctAnswer'', parsedCorrectAnswer),
      (''order'', JNum nextOrder),
      (''timestamp'', JNum now)]
     @ (case f_image req of
          None \<Rightarrow> []
        | Some (mimeType, base64Image) \<Rightarrow>
            [(''image'', JStr (''data:'' @ mimeType @ '';base64,'' @ base64Image))])"


text \<open>
  The handler. \<open>JSON_parse\<close> stands for \<^verbatim>\<open>JSON.parse\<close> (\<open>None\<close> when it throws),
  \<open>newId\<close> is the id \<^verbatim>\<open>add\<close> draws and \<open>now\<close> the clock reading. A thrown error is
  caught and answered with 500.
\<close>

definition addQuestion ::
  "client \<Rightarrow> (string \<Rightarrow> jsval option) \<Rightarrow> string \<Rightarrow> int \<Rightarrow> question_req \<Rightarrow> store \<Rightarrow>
     response \<times> store" where
  "addQuestion cl JSON_parse newId now req st =
     (if p_examTitle req = [] \<or> \<not> truthy (b_question req) \<or> \<not> truthy (b_options req)
           \<or> b_correctAnswer req = JUndefined
      then (respond 400 [(''error'', JStr ''Missing required fields'')], st)
      else
        (case JSON_parse (js_toString (b_options req)) of
           None \<Rightarrow> (respond 500 [(''error'', JStr ''Internal server error'')], st)
         | Some parsedOptions \<Rightarrow>
             (let parsedCorrectAnswer = parseInt (b_correctAnswer req) in
              if \<not> Array_isArray parsedOptions \<or> array_length parsedOptions \<noteq> 4
                   \<or> isNaN parsedCorrectAnswer
              then (respond 400 [(''error'', JStr ''Invalid options or correct answer'')], st)
              else
                (case questionsCollection cl (p_examTitle req) of
                   Inl message \<Rightarrow> (respond 500 [(''error'', JStr ''Internal server error'')], st)
                 | Inr questions \<Rightarrow>
                     (let nextOrder = int (length (collection_docs questions (fsdb st))) + 1;
                          new = questionData req parsedOptions parsedCorrectAnswer nextOrder now
                      in case fs_accepts cl (questions @ [newId]) new of
                           Some message \<Rightarrow>
                             (respond 500 [(''error'', JStr ''Internal server error'')], st)
                         | None \<Rightarrow>
                             (case doc_create (questions @ [newId]) new (fsdb st) of
                                None \<Rightarrow>
                                  (respond 500 [(''error'', JStr ''Internal server error'')], st)
                              | Some fs' \<Rightarrow>
                                  (respond 200
                                     [(''message'', JStr ''Question added successfully''),
                                      (''questionId'', JStr newId),
                                      (''order'', JNum nextOrder)],
                                   st\<lparr>fsdb := fs'\<rparr>)))))))"

text \<open>
  \<^verbatim>\<open>DELETE /api/exams/:examTitle/questions/:questionId\<close>. The document addressed is
  \<^verbatim>\<open>examCollection.collection("Questions").doc(questionId)\<close>; when one of the two
  calls of \<^verbatim>\<open>doc\<close> throws, the answer is 500 and nothing is deleted.
\<close>

definition questionDocument :: "client \<Rightarrow> string \<Rightarrow> string \<Rightarrow> string + path" where
  "questionDocument cl examTitle questionId =
     (case questionsCollection cl examTitle of
        Inl message \<Rightarrow> Inl message
      | Inr questions \<Rightarrow> fs_doc cl questions questionId)"

definition deleteQuestion :: "client \<Rightarrow> string \<Rightarrow> string \<Rightarrow> store \<Rightarrow> response \<times> store" where
  "deleteQuestion cl examTitle questionId st =
     (case questionDocument cl examTitle questionId of
        Inl message \<Rightarrow> (respond 500 [(''error'', JStr ''Internal server error'')], st)
      | Inr questionDoc \<Rightarrow>
          (respond 200 [(''message'', JStr ''Question deleted successfully'')],
           st\<lparr>fsdb := doc_delete questionDoc (fsdb st)\<rparr>))"

text \<open>Requests handled one after the other, each on the store the one before left.\<close>

fun addQuestions ::
  "client \<Rightarrow> (string \<Rightarrow> jsval option) \<Rightarrow> (string \<times> int \<times> question_req) list \<Rightarrow> store \<Rightarrow>
     response list \<times> store" where
  "addQuestions cl JSON_parse [] st = ([], st)"
| "addQuestions cl JSON_parse ((newId, now, req) # calls) st =
     (let (r, st') = addQuestion cl JSON_parse newId now req st;
          (rs, st'') = addQuestions cl JSON_parse calls st'
      in (r # rs, st''))"

text \<open>
  The \<open>order\<close> values answered to the successful creations on one exam, in sequence.
  A request is on the exam of title \<open>examTitle\<close> when its title names the same exam
  document, which holds the questions.
\<close>

definition created_orders ::
  "client \<Rightarrow> string \<Rightarrow> (string \<times> int \<times> question_req) list \<Rightarrow> response list \<Rightarrow> jsval list" where
  "created_orders cl examTitle calls rs =
     map (\<lambda>(call, r). js_prop (body r) ''order'')
       (filter (\<lambda>(call, r). questionsCollection cl (p_examTitle (snd (snd call)))
                                = questionsCollection cl examTitle \<and> status r = 200)
          (zip calls rs))"


subsection \<open>What one creation does\<close>

lemma questionData_order [simp]: "js_get (questionData req opts ca k now) ''order'' = JNum k"
  by (simp add: questionData_def js_get_def)

lemma addQuestion_unchanged:
  "status (fst (addQuestion cl P newId now req st)) \<noteq> 200 \<Longrightarrow>
     snd (addQuestion cl P newId now req st) = st"
  by (auto simp: addQuestion_def respond_def Let_def split: option.splits if_splits sum.splits)

lemma addQuestion_created:
  assumes "status (fst (addQuestion cl P newId now req st)) = 200"
  shows "\<exists>opts questions.
           P (js_toString (b_options req)) = Some opts \<and>
           questionsCollection cl (p_examTitle req) = Inr questions \<and>
           snd (addQuestion cl P newId now req st)
             = st\<lparr>fsdb := fsdb st @
                   [(questions @ [newId],
                     questionData req opts (parseInt (b_correctAnswer req))
                       (int (length (collection_docs questions (fsdb st))) + 1) now)]\<rparr>
           \<and> \<not> doc_exists (questions @ [newId]) (fsdb st)
           \<and> js_prop (body (fst (addQuestion cl P newId now req st))) ''order''
               = JNum (int (length (collection_docs questions (fsdb st))) + 1)"
  using assms
  by (auto simp: addQuestion_def respond_def Let_def doc_create_def js_get_def js_prop_def
      split: option.splits if_splits sum.splits)

lemma collection_docs_other:
  "c' \<noteq> c \<Longrightarrow> collection_docs c (fs @ [(c' @ [i], d)]) = collection_docs c fs"
  by (simp add: collection_docs_def)

lemma length_collection_docs_new:
  "length (collection_docs c (fs @ [(c @ [i], d)])) = Suc (length (collection_docs c fs))"
  by (simp add: collection_docs_def)

lemma addQuestion_count:
  "length (collection_docs c (fsdb (snd (addQuestion cl P newId now req st)))) =
     length (collection_docs c (fsdb st))
       + (if questionsCollection cl (p_examTitle req) = Inr c
             \<and> status (fst (addQuestion cl P newId now req st)) = 200 then 1 else 0)"
proof (cases "status (fst (addQuestion cl P newId now req st)) = 200")
  case True
  from addQuestion_created [OF True] obtain d questions where
    "questionsCollection cl (p_examTitle req) = Inr questions"
    "snd (addQuestion cl P newId now req st) = st\<lparr>fsdb := fsdb st @ [(questions @ [newId], d)]\<rparr>"
    by blast
  with True show ?thesis
    by (cases "questions = c")
       (simp_all add: length_collection_docs_new collection_docs_other)
next
  case False
  then show ?thesis by (simp add: addQuestion_unchanged)
qed

subsection \<open>A sequence of creations\<close>

lemma addQuestions_Cons:
  "addQuestions cl P ((newId, now, req) # calls) st =
     (fst (addQuestion cl P newId now req st)
        # fst (addQuestions cl P calls (snd (addQuestion cl P newId now req st))),
      snd (addQuestions cl P calls (snd (addQuestion cl P newId now req st))))"
  by (simp add: Let_def split_beta)

lemma created_orders_Nil [simp]: "created_orders cl t [] [] = []"
  by (simp add: created_orders_def)

lemma created_orders_Cons:
  "created_orders cl t ((newId, now, req) # calls) (r # rs) =
     (if questionsCollection cl (p_examTitle req) = questionsCollection cl t \<and> status r = 200
      then [js_prop (body r) ''order''] else [])
       @ created_orders cl t calls rs"
  by (simp add: created_orders_def)

lemma addQuestions_count_mono:
  "length (collection_docs c (fsdb st))
     \<le> length (collection_docs c (fsdb (snd (addQuestions cl P calls st))))"
proof (induction calls arbitrary: st)
  case Nil
  show ?case by simp
next
  case (Cons call calls)
  obtain i n q where call: "call = (i, n, q)" by (cases call)
  have "length (collection_docs c (fsdb st))
          \<le> length (collection_docs c (fsdb (snd (addQuestion cl P i n q st))))"
    by (simp add: addQuestion_count)
  also have "\<dots> \<le> length (collection_docs c
                        (fsdb (snd (addQuestions cl P calls (snd (addQuestion cl P i n q st))))))"
    by (rule Cons.IH)
  finally show ?case by (simp only: call addQuestions_Cons snd_conv)
qed

lemma addQuestions_orders:
  assumes t: "questionsCollection cl t = Inr c"
  shows "created_orders cl t calls (fst (addQuestions cl P calls st)) =
     map JNum [int (length (collection_docs c (fsdb st))) + 1 ..
               int (length (collection_docs c (fsdb (snd (addQuestions cl P calls st)))))]"
proof (induction calls arbitrary: st)
  case Nil
  show ?case by simp
next
  case (Cons call calls)
  obtain newId now req where call: "call = (newId, now, req)" by (cases call)
  let ?r = "fst (addQuestion cl P newId now req st)"
  let ?st = "snd (addQuestion cl P newId now req st)"
  let ?k = "\<lambda>s. int (length (collection_docs c (fsdb s)))"
  note IH = Cons.IH [of ?st]
  show ?case
  proof (cases "questionsCollection cl (p_examTitle req) = Inr c \<and> status ?r = 200")
    case True
    then have ok: "status ?r = 200" and same: "questionsCollection cl (p_examTitle req) = Inr c"
      by simp_all
    from addQuestion_created [OF ok] same
    have ord: "js_prop (body ?r) ''order'' = JNum (?k st + 1)" by auto
    have k: "?k ?st = ?k st + 1"
      using True by (simp add: addQuestion_count)
    have le: "?k st + 1 \<le> ?k (snd (addQuestions cl P calls ?st))"
      using addQuestions_count_mono [of c ?st cl P calls] k by simp
    show ?thesis
      unfolding call addQuestions_Cons fst_conv snd_conv
      using True by (simp add: created_orders_Cons t ord IH k upto_rec1 [OF le])
  next
    case False
    then have k: "?k ?st = ?k st"
      by (auto simp: addQuestion_count)
    show ?thesis
      unfolding call addQuestions_Cons fst_conv snd_conv
      using False by (simp add: created_orders_Cons t IH k)
  qed
qed

lemma map_of_snoc_new:
  "\<not> doc_exists p fs \<Longrightarrow> map_of (fs @ [(p, d)]) p = Some d"
  by (simp add: doc_exists_def map_add_def map_of_eq_None_iff [THEN iffD2] split: option.split)

text \<open>
  Claim C6. A successful creation answers, and stores in the new document, the order
  \<open>n + 1\<close>, where \<open>n\<close> is the number of question documents the exam has at that time.
  So when requests are handled in sequence from a state where the exam has no question,
  the orders answered to the successful creations on that exam are \<open>1, 2, \<dots>, N\<close>,
  whatever requests on other exams come in between.
\<close>

theorem addQuestion_order:
  "(status (fst (addQuestion cl P newId now req st)) = 200 \<longrightarrow>
      (\<exists>questions.
         questionsCollection cl (p_examTitle req) = Inr questions \<and>
         js_prop (body (fst (addQuestion cl P newId now req st))) ''order''
           = JNum (int (length (collection_docs questions (fsdb st))) + 1) \<and>
         (\<exists>d. map_of (fsdb (snd (addQuestion cl P newId now req st))) (questions @ [newId]) = Some d \<and>
               js_get d ''order'' = JNum (int (length (collection_docs questions (fsdb st))) + 1)))) \<and>
   (questionsCollection cl t = Inr c \<and> collection_docs c (fsdb st) = [] \<longrightarrow>
      created_orders cl t calls (fst (addQuestions cl P calls st))
        = map JNum [1 .. int (length (created_orders cl t calls (fst (addQuestions cl P calls st))))])"
proof (intro conjI impI)
  assume ok: "status (fst (addQuestion cl P newId now req st)) = 200"
  from addQuestion_created [OF ok] obtain opts questions where
    q: "questionsCollection cl (p_examTitle req) = Inr questions"
    and st': "snd (addQuestion cl P newId now req st)
             = st\<lparr>fsdb := fsdb st @
                   [(questions @ [newId],
                     questionData req opts (parseInt (b_correctAnswer req))
                       (int (length (collection_docs questions (fsdb st))) + 1) now)]\<rparr>"
    and new: "\<not> doc_exists (questions @ [newId]) (fsdb st)"
    and ord: "js_prop (body (fst (addQuestion cl P newId now req st))) ''order''
               = JNum (int (length (collection_docs questions (fsdb st))) + 1)"
    by blast
  have "\<exists>d. map_of (fsdb (snd (addQuestion cl P newId now req st))) (questions @ [newId]) = Some d \<and>
            js_get d ''order'' = JNum (int (length (collection_docs questions (fsdb st))) + 1)"
    unfolding st' using map_of_snoc_new [OF new] by simp
  with q ord
  show "\<exists>questions.
         questionsCollection cl (p_examTitle req) = Inr questions \<and>
         js_prop (body (fst (addQuestion cl P newId now req st))) ''order''
           = JNum (int (length (collection_docs questions (fsdb st))) + 1) \<and>
         (\<exists>d. map_of (fsdb (snd (addQuestion cl P newId now req st))) (questions @ [newId]) = Some d \<and>
               js_get d ''order'' = JNum (int (length (collection_docs questions (fsdb st))) + 1))"
    by blast
next
  assume a: "questionsCollection cl t = Inr c \<and> collection_docs c (fsdb st) = []"
  let ?os = "created_orders cl t calls (fst (addQuestions cl P calls st))"
  let ?n = "int (length (collection_docs c (fsdb (snd (addQuestions cl P calls st)))))"
  have os: "?os = map JNum [1 .. ?n]"
    using addQuestions_orders [of cl t c calls P st] a by simp
  then have "int (length ?os) = ?n" by simp
  with os show "?os = map JNum [1 .. int (length ?os)]" by simp
qed


subsection \<open>Examples\<close>

text \<open>
  For the examples, \<^verbatim>\<open>JSON.parse\<close> as a table at the two texts they send for the
  options; any other text is taken to make it throw, as a text that is not JSON does.
  The theorems hold for every parser.
\<close>

definition JSON_parse_sample :: "string \<Rightarrow> jsval option" where
  "JSON_parse_sample s =
     (if s = ''[1,2,3,4]'' then Some (JArr [JNum 1, JNum 2, JNum 3, JNum 4])
      else if s = ''[1,2,3]'' then Some (JArr [JNum 1, JNum 2, JNum 3])
      else None)"

definition empty_store :: store where
  "empty_store = \<lparr>fsdb = [], rtdb = JNull\<rparr>"

definition sample_req :: "string \<Rightarrow> string \<Rightarrow> question_req" where
  "sample_req title ca =
     \<lparr>p_examTitle = title, b_question = JStr ''Q?'', b_options = JStr ''[1,2,3,4]'',
      b_correctAnswer = JStr ca, f_image = None\<rparr>"

definition sample_calls :: "(string \<times> int \<times> question_req) list" where
  "sample_calls =
     [(''a'', 10, sample_req ''Maths'' ''0''),
      (''b'', 11, sample_req ''Physics'' ''1''),
      (''c'', 12, sample_req ''Maths'' ''2''),
      (''d'', 13, sample_req ''Maths'' ''x''),
      (''e'', 14, sample_req ''Maths'' ''3'')]"

lemma sample_req_title [simp]: "p_examTitle (sample_req title ca) = title"
  by (simp add: sample_req_def)

lemma sample_collection:
  "questionsCollection node_client ''Maths'' = Inr [''Exams'', ''Maths'', ''Questions'']"
  by code_simp

lemma sample_fresh: "collection_docs [''Exams'', ''Maths'', ''Questions''] (fsdb empty_store) = []"
  by code_simp

lemma sample_first:
  "fst (addQuestion node_client JSON_parse_sample ''a'' 10 (sample_req ''Maths'' ''0'') empty_store) =
     \<lparr>status = 200,
      body = JObj [(''message'', JStr ''Question added successfully''),
                   (''questionId'', JStr ''a''), (''order'', JNum 1)]\<rparr>"
  by code_simp

lemma sample_orders:
  "created_orders node_client ''Maths'' sample_calls
     (fst (addQuestions node_client JSON_parse_sample sample_calls empty_store))
     = [JNum 1, JNum 2, JNum 3]"
  by code_simp

theorem addQuestion_order_witness:
  "status (fst (addQuestion node_client JSON_parse_sample ''a'' 10 (sample_req ''Maths'' ''0'')
                  empty_store)) = 200 \<and>
   js_prop (body (fst (addQuestion node_client JSON_parse_sample ''a'' 10 (sample_req ''Maths'' ''0'')
                         empty_store))) ''order'' = JNum 1 \<and>
   questionsCollection node_client ''Maths'' = Inr [''Exams'', ''Maths'', ''Questions''] \<and>
   collection_docs [''Exams'', ''Maths'', ''Questions''] (fsdb empty_store) = [] \<and>
   created_orders node_client ''Maths'' sample_calls
     (fst (addQuestions node_client JSON_parse_sample sample_calls empty_store))
     = [JNum 1, JNum 2, JNum 3]"
  using addQuestion_order [of node_client JSON_parse_sample "''a''" 10 "sample_req ''Maths'' ''0''"
      empty_store "''Maths''" "[''Exams'', ''Maths'', ''Questions'']" sample_calls]
  by (simp add: sample_first sample_collection sample_fresh sample_orders)

text \<open>
  With the checks of the Node clients given above, the title \<^verbatim>\<open>Maths/\<close> names the
  exam document \<^verbatim>\<open>Exams/Maths\<close> too, so that a creation under it counts among those
  on that exam; the title \<^verbatim>\<open>a/b\<close> is refused, and the request answered 500.
\<close>

lemma sample_same_exam:
  "questionsCollection node_client ''Maths/'' = questionsCollection node_client ''Maths''"
  "created_orders node_client ''Maths''
     [(''a'', 10, sample_req ''Maths'' ''0''), (''b'', 11, sample_req ''Maths/'' ''1''),
      (''c'', 12, sample_req ''Maths'' ''2'')]
     (fst (addQuestions node_client JSON_parse_sample
        [(''a'', 10, sample_req ''Maths'' ''0''), (''b'', 11, sample_req ''Maths/'' ''1''),
         (''c'', 12, sample_req ''Maths'' ''2'')] empty_store))
     = [JNum 1, JNum 2, JNum 3]"
  by code_simp+

lemma sample_refused_title:
  "addQuestion node_client JSON_parse_sample ''a'' 10 (sample_req ''a/b'' ''0'') empty_store =
     (\<lparr>status = 500, body = JObj [(''error'', JStr ''Internal server error'')]\<rparr>, empty_store)"
  by code_simp

subsection \<open>Validation\<close>

text \<open>
  When the fields are there and \<^verbatim>\<open>JSON.parse\<close> throws on the options, the catch
  block answers 500 and nothing is stored.
\<close>

lemma addQuestion_parse_throws:
  assumes "p_examTitle req \<noteq> []" "truthy (b_question req)" "truthy (b_options req)"
    "b_correctAnswer req \<noteq> JUndefined" "P (js_toString (b_options req)) = None"
  shows "addQuestion cl P newId now req st =
           (respond 500 [(''error'', JStr ''Internal server error'')], st)"
  using assms by (simp add: addQuestion_def)





lemma sample_missing:
  "addQuestion node_client JSON_parse_sample ''d'' 13
     ((sample_req ''Maths'' ''0'')\<lparr>b_question := JUndefined\<rparr>) empty_store =
     (\<lparr>status = 400, body = JObj [(''error'', JStr ''Missing required fields'')]\<rparr>, empty_store)"
  by code_simp


subsection \<open>Deleting a question\<close>

lemma map_of_doc_delete:
  "map_of (doc_delete p fs) p' = (if p' = p then None else map_of fs p')"
  by (induction fs) (auto simp: doc_delete_def)

lemma collection_docs_doc_delete:
  "collection_docs c (doc_delete p fs) = filter (\<lambda>d. c @ [fst d] \<noteq> p) (collection_docs c fs)"
proof -
  have key: "(q \<noteq> p) = (c @ [last q] \<noteq> p)" if "q \<noteq> []" "butlast q = c" for q
    using that by (metis append_butlast_last_id)
  have eq: "((\<lambda>(q, d). q \<noteq> p) x \<and> (\<lambda>(p, d). p \<noteq> [] \<and> butlast p = c) x) =
            ((\<lambda>(p, d). p \<noteq> [] \<and> butlast p = c) x \<and> ((\<lambda>d. c @ [fst d] \<noteq> p) \<circ> (\<lambda>(p, d). (last p, d))) x)"
    for x :: "path \<times> obj"
  proof (cases x)
    case (Pair q d)
    show ?thesis
      unfolding Pair split_conv comp_def fst_conv using key [of q] by blast
  qed
  have "filter (\<lambda>(p, d). p \<noteq> [] \<and> butlast p = c) (filter (\<lambda>(q, d). q \<noteq> p) fs)
        = filter ((\<lambda>d. c @ [fst d] \<noteq> p) \<circ> (\<lambda>(p, d). (last p, d)))
            (filter (\<lambda>(p, d). p \<noteq> [] \<and> butlast p = c) fs)"
    unfolding filter_filter by (rule filter_cong [OF refl]) (rule eq)
  then show ?thesis
    by (simp add: collection_docs_def doc_delete_def filter_sort filter_map)
qed

text \<open>
  Claim C9. Deleting a question removes the document addressed,
  \<^verbatim>\<open>Exams/{examTitle}/Questions/{questionId}\<close>, and nothing else: every other document
  of the store keeps all its fields, the documents of every collection, the exam's
  questions among them, are the ones it had but for the document addressed, with the
  data (and so the order) they had, and the key tree is not touched. When the client
  refuses the title or the id, the answer is 500 and the store is as it was.
\<close>

theorem deleteQuestion_frame:
  "(questionDocument cl examTitle questionId = Inr p \<longrightarrow>
      status (fst (deleteQuestion cl examTitle questionId st)) = 200 \<and>
      map_of (fsdb (snd (deleteQuestion cl examTitle questionId st))) p = None \<and>
      (\<forall>p'. p' \<noteq> p \<longrightarrow>
         map_of (fsdb (snd (deleteQuestion cl examTitle questionId st))) p' = map_of (fsdb st) p') \<and>
      (\<forall>c. collection_docs c (fsdb (snd (deleteQuestion cl examTitle questionId st)))
             = filter (\<lambda>doc. c @ [fst doc] \<noteq> p) (collection_docs c (fsdb st)))) \<and>
   (questionDocument cl examTitle questionId = Inl m \<longrightarrow>
      status (fst (deleteQuestion cl examTitle questionId st)) = 500 \<and>
      snd (deleteQuestion cl examTitle questionId st) = st) \<and>
   rtdb (snd (deleteQuestion cl examTitle questionId st)) = rtdb st"
  by (cases "questionDocument cl examTitle questionId")
     (simp_all add: deleteQuestion_def respond_def map_of_doc_delete collection_docs_doc_delete)

definition three_questions :: store where
  "three_questions =
     \<lparr>fsdb =
        [([''Exams'', ''Maths'', ''Questions'', ''qa''], [(''question'', JStr ''A?''), (''order'', JNum 1)]),
         ([''Exams'', ''Maths'', ''Questions'', ''qb''], [(''question'', JStr ''B?''), (''order'', JNum 2)]),
         ([''Exams'', ''Maths'', ''Questions'', ''qc''], [(''question'', JStr ''C?''), (''order'', JNum 3)])],
      rtdb = JNull\<rparr>"

lemma sample_document:
  "questionDocument node_client ''Maths'' ''qb'' = Inr [''Exams'', ''Maths'', ''Questions'', ''qb'']"
  "questionDocument node_client ''a/b'' ''qb''
     = Inl ''Your path does not contain an even number of components.''"
  by code_simp+

theorem deleteQuestion_frame_witness:
  "questionDocument node_client ''Maths'' ''qb'' = Inr [''Exams'', ''Maths'', ''Questions'', ''qb''] \<and>
   status (fst (deleteQuestion node_client ''Maths'' ''qb'' three_questions)) = 200 \<and>
   map_of (fsdb (snd (deleteQuestion node_client ''Maths'' ''qb'' three_questions)))
     [''Exams'', ''Maths'', ''Questions'', ''qc'']
     = Some [(''question'', JStr ''C?''), (''order'', JNum 3)] \<and>
   collection_docs [''Exams'', ''Maths'', ''Questions'']
     (fsdb (snd (deleteQuestion node_client ''Maths'' ''qb'' three_questions)))
     = [(''qa'', [(''question'', JStr ''A?''), (''order'', JNum 1)]),
        (''qc'', [(''question'', JStr ''C?''), (''order'', JNum 3)])] \<and>
   isl (questionDocument node_client ''a/b'' ''qb'') \<and>
   status (fst (deleteQuestion node_client ''a/b'' ''qb'' three_questions)) = 500 \<and>
   snd (deleteQuestion node_client ''a/b'' ''qb'' three_questions) = three_questions"
proof -
  have before: "map_of (fsdb three_questions) [''Exams'', ''Maths'', ''Questions'', ''qc'']
                  = Some [(''question'', JStr ''C?''), (''order'', JNum 3)]"
    by (simp add: three_questions_def)
  have docs: "filter (\<lambda>doc. [''Exams'', ''Maths'', ''Questions''] @ [fst doc]
                             \<noteq> [''Exams'', ''Maths'', ''Questions'', ''qb''])
                (collection_docs [''Exams'', ''Maths'', ''Questions''] (fsdb three_questions))
              = [(''qa'', [(''question'', JStr ''A?''), (''order'', JNum 1)]),
                 (''qc'', [(''question'', JStr ''C?''), (''order'', JNum 3)])]"
    by code_simp
  from deleteQuestion_frame [of node_client "''Maths''" "''qb''"
      "[''Exams'', ''Maths'', ''Questions'', ''qb'']" three_questions]
    deleteQuestion_frame [of node_client "''a/b''" "''qb''" _ three_questions
      "''Your path does not contain an even number of components.''"]
    before docs
  show ?thesis by (simp add: sample_document)
qed

section \<open>Scheduling management\<close>

subsection \<open>Regular expressions\<close>

text \<open>
  The fragment of regular expressions the handler's literal uses: one character of a
  class, sequence, alternative, option. \<open>rx_rest r s\<close> lists what can remain of \<open>s\<close>
  after a match of \<open>r\<close> at its start; \<^verbatim>\<open>/^r$/.test(s)\<close> asks for a match that leaves
  nothing.
\<close>

datatype rx =
    Chr "char \<Rightarrow> bool"
  | Then rx rx
  | Or rx rx
  | Maybe rx

fun rx_rest :: "rx \<Rightarrow> string \<Rightarrow> string list" where
  "rx_rest (Chr P) s = (case s of [] \<Rightarrow> [] | c # cs \<Rightarrow> if P c then [cs] else [])"
| "rx_rest (Then a b) s = concat (map (rx_rest b) (rx_rest a s))"
| "rx_rest (Or a b) s = rx_rest a s @ rx_rest b s"
| "rx_rest (Maybe a) s = rx_rest a s @ [s]"

definition rx_test :: "rx \<Rightarrow> string \<Rightarrow> bool" where
  "rx_test r s = ([] \<in> set (rx_rest r s))"

definition lit :: "char \<Rightarrow> rx" where
  "lit c = Chr (\<lambda>x. x = c)"

definition char_range :: "char \<Rightarrow> char \<Rightarrow> rx" where
  "char_range lo hi = Chr (\<lambda>x. lo \<le> x \<and> x \<le> hi)"

text \<open>A letter under the flag \<^verbatim>\<open>i\<close>: its upper-case or its lower-case form.\<close>

definition letter_i :: "char \<Rightarrow> char \<Rightarrow> rx" where
  "letter_i up lo = Chr (\<lambda>x. x = up \<or> x = lo)"

text \<open>\<^verbatim>\<open>/^(0?[1-9]|1[0-2]):[0-5][0-9]\s?(AM|PM)$/i\<close>\<close>

definition timeRegex :: rx where
  "timeRegex =
     Then (Or (Then (Maybe (lit CHR ''0'')) (char_range CHR ''1'' CHR ''9''))
              (Then (lit CHR ''1'') (char_range CHR ''0'' CHR ''2'')))
    (Then (lit CHR '':'')
    (Then (char_range CHR ''0'' CHR ''5'')
    (Then (char_range CHR ''0'' CHR ''9'')
    (Then (Maybe (Chr js_whitespace))
          (Or (Then (letter_i CHR ''A'' CHR ''a'') (letter_i CHR ''M'' CHR ''m''))
              (Then (letter_i CHR ''P'' CHR ''p'') (letter_i CHR ''M'' CHR ''m'')))))))"

text \<open>
  The pattern in the words of the specification (section 4.2): \<^verbatim>\<open>H:MM AM/PM\<close>, hour
  1 to 12, minute 00 to 59, AM or PM in either case, an optional space before the suffix.
\<close>

definition spec_time_rx :: rx where
  "spec_time_rx =
     Then (Or (char_range CHR ''1'' CHR ''9'')
              (Then (lit CHR ''1'') (char_range CHR ''0'' CHR ''2'')))
    (Then (lit CHR '':'')
    (Then (char_range CHR ''0'' CHR ''5'')
    (Then (char_range CHR ''0'' CHR ''9'')
    (Then (Maybe (lit CHR '' ''))
          (Or (Then (letter_i CHR ''A'' CHR ''a'') (letter_i CHR ''M'' CHR ''m''))
              (Then (letter_i CHR ''P'' CHR ''p'') (letter_i CHR ''M'' CHR ''m'')))))))"

subsection \<open>The store writes of the handler\<close>

text \<open>
  \<^verbatim>\<open>docRef.set(fields, { merge: true })\<close>: the new fields are written over the document's
  own, a map into a map key by key; a document that does not exist is created.
\<close>

fun deep_merge :: "obj \<Rightarrow> obj \<Rightarrow> obj" where
  "deep_merge old [] = old"
| "deep_merge old ((k, v) # rest) =
     deep_merge
       (AList.update k
          (case v of
             JObj new \<Rightarrow> (case map_of old k of
                            Some (JObj cur) \<Rightarrow> JObj (deep_merge cur new)
                          | _ \<Rightarrow> v)
           | _ \<Rightarrow> v)
          old)
       rest"

definition doc_set_merge :: "path \<Rightarrow> obj \<Rightarrow> fstore \<Rightarrow> fstore" where
  "doc_set_merge p new fs =
     (case map_of fs p of
        None \<Rightarrow> fs @ [(p, new)]
      | Some old \<Rightarrow> AList.update p (deep_merge old new) fs)"

record schedule_req =
  s_examTitle :: string
  s_date :: jsval
  s_startTime :: jsval
  s_endTime :: jsval
  s_marks :: jsval
  s_price :: jsval


text \<open>
  \<^verbatim>\<open>POST /api/exams/:examTitle/date-time\<close>. \<open>now\<close> is the server time both stores
  put in \<open>updatedAt\<close>. \<^verbatim>\<open>timeRegex.test(v)\<close> tests the string of \<open>v\<close>.

  The fields of the request that are stored, and the record stored; the clients are
  handed it with a placeholder for the server time under \<open>updatedAt\<close>, which the model
  shows as the time it stands for.
\<close>

definition schedulePayload :: "schedule_req \<Rightarrow> obj" where
  "schedulePayload req =
     [(''date'', s_date req), (''startTime'', s_startTime req), (''endTime'', s_endTime req),
      (''marks'', s_marks req), (''price'', s_price req)]"

definition scheduleRecord :: "int \<Rightarrow> schedule_req \<Rightarrow> jsval" where
  "scheduleRecord now req = JObj (schedulePayload req @ [(''updatedAt'', JNum now)])"

text \<open>
  The writes of the handler, in the order of the source: the key tree first, then the
  exam document. An error thrown on the way ends the request with the answer 500, and
  the key tree stays written when the error comes from the document store.
\<close>

definition saveFailed :: "string \<Rightarrow> store \<Rightarrow> response \<times> store" where
  "saveFailed message st =
     (respond 500 [(''error'', JStr ''Failed to save exam details''), (''details'', JStr message)], st)"

definition setExamSchedule :: "client \<Rightarrow> int \<Rightarrow> schedule_req \<Rightarrow> store \<Rightarrow> response \<times> store" where
  "setExamSchedule cl now req st =
     (if s_examTitle req = [] \<or> \<not> truthy (s_date req) \<or> \<not> truthy (s_startTime req)
           \<or> \<not> truthy (s_endTime req) \<or> s_marks req = JUndefined \<or> s_price req = JUndefined
      then (respond 400
              [(''error'', JStr ''Missing required fields. Please provide date, startTime, endTime, marks, and price.'')],
            st)
      else if \<not> rx_test timeRegex (js_toString (s_startTime req))
                \<or> \<not> rx_test timeRegex (js_toString (s_endTime req))
      then (respond 400
              [(''error'', JStr ''Invalid time format. Please provide time in 12-hour format (e.g., 1:45 PM).'')],
            st)
      else
        (case rt_child cl [''ExamDateTime''] (s_examTitle req) of
           Inl message \<Rightarrow> saveFailed message st
         | Inr examDateTimeRef \<Rightarrow>
             (case rt_accepts cl examDateTimeRef (scheduleRecord now req) of
                Some message \<Rightarrow> saveFailed message st
              | None \<Rightarrow>
                  (let st1 = st\<lparr>rtdb := rt_set examDateTimeRef (scheduleRecord now req) (rtdb st)\<rparr> in
                   case fs_doc cl [''Exams''] (s_examTitle req) of
                     Inl message \<Rightarrow> saveFailed message st1
                   | Inr examRef \<Rightarrow>
                       (case fs_accepts cl examRef [(''dateTime'', scheduleRecord now req)] of
                          Some message \<Rightarrow> saveFailed message st1
                        | None \<Rightarrow>
                            (respond 200
                               [(''message'', JStr ''Exam details saved successfully''),
                                (''data'', JObj ((''examTitle'', JStr (s_examTitle req))
                                                   # schedulePayload req))],
                             st1\<lparr>fsdb := doc_set_merge examRef
                                            [(''dateTime'', scheduleRecord now req)] (fsdb st)\<rparr>))))))"

text \<open>
  Both clients take the title and the record: the condition under which no write of the
  handler throws.
\<close>

definition scheduleAccepted :: "client \<Rightarrow> int \<Rightarrow> schedule_req \<Rightarrow> bool" where
  "scheduleAccepted cl now req =
     ((case rt_child cl [''ExamDateTime''] (s_examTitle req) of
         Inl message \<Rightarrow> False
       | Inr examDateTimeRef \<Rightarrow> rt_accepts cl examDateTimeRef (scheduleRecord now req) = None) \<and>
      (case fs_doc cl [''Exams''] (s_examTitle req) of
         Inl message \<Rightarrow> False
       | Inr examRef \<Rightarrow> fs_accepts cl examRef [(''dateTime'', scheduleRecord now req)] = None))"

text \<open>
  \<^verbatim>\<open>GET /api/exams/:examTitle/date-time\<close>: a single-item read of the key tree; 500
  when \<^verbatim>\<open>child(examTitle)\<close> throws.
\<close>

definition getExamSchedule :: "client \<Rightarrow> string \<Rightarrow> store \<Rightarrow> response" where
  "getExamSchedule cl examTitle st =
     (case rt_child cl [''ExamDateTime''] examTitle of
        Inl message \<Rightarrow>
          respond 500 [(''error'', JStr ''Failed to fetch exam date and time''),
                       (''details'', JStr message)]
      | Inr examDateTimeRef \<Rightarrow>
          (let dateTimeData = rt_get examDateTimeRef (rtdb st) in
           if \<not> truthy dateTimeData
           then respond 404 [(''error'', JStr ''Exam date and time not found'')]
           else respond 200 (obj_spread [(''examTitle'', JStr examTitle)] (own_entries dateTimeData))))"

subsection \<open>The strings a regular expression matches\<close>

fun lang :: "rx \<Rightarrow> string set" where
  "lang (Chr P) = {[c] |c. P c}"
| "lang (Then a b) = {u @ v |u v. u \<in> lang a \<and> v \<in> lang b}"
| "lang (Or a b) = lang a \<union> lang b"
| "lang (Maybe a) = insert [] (lang a)"

lemma rx_rest_lang: "set (rx_rest r s) = {v. \<exists>u \<in> lang r. s = u @ v}"
proof (induction r arbitrary: s)
  case (Chr P)
  show ?case by (cases s) auto
next
  case (Then a b)
  show ?case
    by (simp add: Then.IH) (fastforce)
next
  case (Or a b)
  show ?case by (simp add: Or.IH) blast
next
  case (Maybe a)
  show ?case by (simp add: Maybe.IH) blast
qed

lemma rx_test_lang: "rx_test r s \<longleftrightarrow> s \<in> lang r"
  by (simp add: rx_test_def rx_rest_lang)

lemma lang_Then_mono: "lang a \<subseteq> lang a' \<Longrightarrow> lang b \<subseteq> lang b' \<Longrightarrow> lang (Then a b) \<subseteq> lang (Then a' b')"
  by auto

lemma lang_Or_mono: "lang a \<subseteq> lang a' \<Longrightarrow> lang b \<subseteq> lang b' \<Longrightarrow> lang (Or a b) \<subseteq> lang (Or a' b')"
  by auto

lemma lang_Maybe_mono: "lang a \<subseteq> lang a' \<Longrightarrow> lang (Maybe a) \<subseteq> lang (Maybe a')"
  by auto

lemma lang_Maybe_Then: "lang b \<subseteq> lang (Then (Maybe a) b)"
  by force

lemma space_whitespace: "lang (lit CHR '' '') \<subseteq> lang (Chr js_whitespace)"
  by (auto simp: lit_def js_whitespace_def)

lemma spec_time_rx_sub: "lang spec_time_rx \<subseteq> lang timeRegex"
  unfolding spec_time_rx_def timeRegex_def
  by (intro lang_Then_mono lang_Or_mono lang_Maybe_mono lang_Maybe_Then space_whitespace subset_refl)


lemma lang_Chr_iff: "s \<in> lang (Chr P) \<longleftrightarrow> (\<exists>c. s = [c] \<and> P c)"
  by auto

lemma lang_Chr_Then_iff:
  "s \<in> lang (Then (Chr P) b) \<longleftrightarrow> (\<exists>c t. s = c # t \<and> P c \<and> t \<in> lang b)"
proof
  assume "s \<in> lang (Then (Chr P) b)"
  then obtain c v where "s = [c] @ v" "P c" "v \<in> lang b" by auto
  then show "\<exists>c t. s = c # t \<and> P c \<and> t \<in> lang b" by simp
next
  assume "\<exists>c t. s = c # t \<and> P c \<and> t \<in> lang b"
  then obtain c t where "s = [c] @ t" "P c" "t \<in> lang b" by auto
  then have "\<exists>u v. s = u @ v \<and> u \<in> lang (Chr P) \<and> v \<in> lang b"
    by (intro exI [of _ "[c]"] exI [of _ t]) simp
  then show "s \<in> lang (Then (Chr P) b)" by auto
qed

lemma lang_Maybe_Then_iff:
  "s \<in> lang (Then (Maybe a) b) \<longleftrightarrow> s \<in> lang b \<or> s \<in> lang (Then a b)"
  by auto

lemma lang_Or_iff: "s \<in> lang (Or a b) \<longleftrightarrow> s \<in> lang a \<or> s \<in> lang b"
  by simp

lemma lang_Then_iff: "s \<in> lang (Then a b) \<longleftrightarrow> (\<exists>u v. s = u @ v \<and> u \<in> lang a \<and> v \<in> lang b)"
  by auto

lemma lang_lit_iff: "s \<in> lang (lit c) \<longleftrightarrow> s = [c]"
  by (auto simp: lit_def)

lemma lang_char_range_iff: "s \<in> lang (char_range lo hi) \<longleftrightarrow> (\<exists>c. s = [c] \<and> lo \<le> c \<and> c \<le> hi)"
  by (auto simp: char_range_def)

lemma lang_hour_iff:
  "h \<in> lang (Or (Then (Maybe (lit CHR ''0'')) (char_range CHR ''1'' CHR ''9''))
                 (Then (lit CHR ''1'') (char_range CHR ''0'' CHR ''2''))) \<longleftrightarrow>
     (\<exists>d. (h = [d] \<or> h = [CHR ''0'', d]) \<and> CHR ''1'' \<le> d \<and> d \<le> CHR ''9'') \<or>
     (\<exists>d. h = [CHR ''1'', d] \<and> CHR ''0'' \<le> d \<and> d \<le> CHR ''2'')"
  unfolding lit_def char_range_def lang_Or_iff lang_Maybe_Then_iff lang_Chr_Then_iff lang_Chr_iff
  by (safe; simp)

lemma lang_space_iff:
  "w \<in> lang (Maybe (Chr js_whitespace)) \<longleftrightarrow> w = [] \<or> (\<exists>c. w = [c] \<and> js_whitespace c)"
  by auto

lemma lang_suffix_iff:
  "t \<in> lang (Or (Then (letter_i CHR ''A'' CHR ''a'') (letter_i CHR ''M'' CHR ''m''))
                 (Then (letter_i CHR ''P'' CHR ''p'') (letter_i CHR ''M'' CHR ''m''))) \<longleftrightarrow>
     (\<exists>x y. t = [x, y] \<and> (x = CHR ''A'' \<or> x = CHR ''a'' \<or> x = CHR ''P'' \<or> x = CHR ''p'') \<and>
            (y = CHR ''M'' \<or> y = CHR ''m''))"
  unfolding letter_i_def lang_Or_iff lang_Chr_Then_iff lang_Chr_iff
  by (safe; simp)

lemma lang_timeRegex:
  "s \<in> lang timeRegex \<longleftrightarrow>
     (\<exists>h m1 m2 w x y.
        s = h @ [CHR '':'', m1, m2] @ w @ [x, y] \<and>
        ((\<exists>d. (h = [d] \<or> h = [CHR ''0'', d]) \<and> CHR ''1'' \<le> d \<and> d \<le> CHR ''9'') \<or>
         (\<exists>d. h = [CHR ''1'', d] \<and> CHR ''0'' \<le> d \<and> d \<le> CHR ''2'')) \<and>
        CHR ''0'' \<le> m1 \<and> m1 \<le> CHR ''5'' \<and> CHR ''0'' \<le> m2 \<and> m2 \<le> CHR ''9'' \<and>
        (w = [] \<or> (\<exists>c. w = [c] \<and> js_whitespace c)) \<and>
        (x = CHR ''A'' \<or> x = CHR ''a'' \<or> x = CHR ''P'' \<or> x = CHR ''p'') \<and>
        (y = CHR ''M'' \<or> y = CHR ''m''))"
  (is "?L \<longleftrightarrow> ?R")
proof
  assume ?L
  then obtain h r1 where s: "s = h @ r1"
    and h: "h \<in> lang (Or (Then (Maybe (lit CHR ''0'')) (char_range CHR ''1'' CHR ''9''))
                 (Then (lit CHR ''1'') (char_range CHR ''0'' CHR ''2'')))"
    and r1: "r1 \<in> lang (Then (lit CHR '':'')
    (Then (char_range CHR ''0'' CHR ''5'')
    (Then (char_range CHR ''0'' CHR ''9'')
    (Then (Maybe (Chr js_whitespace))
          (Or (Then (letter_i CHR ''A'' CHR ''a'') (letter_i CHR ''M'' CHR ''m''))
              (Then (letter_i CHR ''P'' CHR ''p'') (letter_i CHR ''M'' CHR ''m'')))))))"
    unfolding timeRegex_def lang_Then_iff [of s] by blast
  from r1 obtain m1 m2 w t where r1': "r1 = [CHR '':''] @ [m1] @ [m2] @ w @ t"
    and m: "CHR ''0'' \<le> m1" "m1 \<le> CHR ''5''" "CHR ''0'' \<le> m2" "m2 \<le> CHR ''9''"
    and w: "w \<in> lang (Maybe (Chr js_whitespace))"
    and t: "t \<in> lang (Or (Then (letter_i CHR ''A'' CHR ''a'') (letter_i CHR ''M'' CHR ''m''))
              (Then (letter_i CHR ''P'' CHR ''p'') (letter_i CHR ''M'' CHR ''m'')))"
    unfolding lang_Then_iff [of _ "lit _"] lang_Then_iff [of _ "char_range _ _"]
      lang_Then_iff [of _ "Maybe _"] lang_lit_iff lang_char_range_iff
    by blast
  from t obtain x y where t': "t = [x, y]"
    and xy: "x = CHR ''A'' \<or> x = CHR ''a'' \<or> x = CHR ''P'' \<or> x = CHR ''p''"
       "y = CHR ''M'' \<or> y = CHR ''m''"
    unfolding lang_suffix_iff by blast
  have "s = h @ [CHR '':'', m1, m2] @ w @ [x, y]"
    by (simp add: s r1' t')
  with h m w xy show ?R
    unfolding lang_hour_iff lang_space_iff by blast
next
  assume ?R
  then obtain h m1 m2 w x y where s0: "s = h @ [CHR '':'', m1, m2] @ w @ [x, y]"
    and h: "(\<exists>d. (h = [d] \<or> h = [CHR ''0'', d]) \<and> CHR ''1'' \<le> d \<and> d \<le> CHR ''9'') \<or>
         (\<exists>d. h = [CHR ''1'', d] \<and> CHR ''0'' \<le> d \<and> d \<le> CHR ''2'')"
    and m: "CHR ''0'' \<le> m1" "m1 \<le> CHR ''5''" "CHR ''0'' \<le> m2" "m2 \<le> CHR ''9''"
    and w: "w = [] \<or> (\<exists>c. w = [c] \<and> js_whitespace c)"
    and xy: "x = CHR ''A'' \<or> x = CHR ''a'' \<or> x = CHR ''P'' \<or> x = CHR ''p''"
       "y = CHR ''M'' \<or> y = CHR ''m''"
    by blast
  from s0 have s: "s = h @ ([CHR '':''] @ [m1] @ [m2] @ w @ [x, y])" by simp
  have t: "[x, y] \<in> lang (Or (Then (letter_i CHR ''A'' CHR ''a'') (letter_i CHR ''M'' CHR ''m''))
              (Then (letter_i CHR ''P'' CHR ''p'') (letter_i CHR ''M'' CHR ''m'')))"
    unfolding lang_suffix_iff using xy by blast
  have w': "w \<in> lang (Maybe (Chr js_whitespace))"
    unfolding lang_space_iff using w .
  have h': "h \<in> lang (Or (Then (Maybe (lit CHR ''0'')) (char_range CHR ''1'' CHR ''9''))
                 (Then (lit CHR ''1'') (char_range CHR ''0'' CHR ''2'')))"
    unfolding lang_hour_iff using h .
  have "[CHR '':''] @ [m1] @ [m2] @ w @ [x, y] \<in> lang (Then (lit CHR '':'')
    (Then (char_range CHR ''0'' CHR ''5'')
    (Then (char_range CHR ''0'' CHR ''9'')
    (Then (Maybe (Chr js_whitespace))
          (Or (Then (letter_i CHR ''A'' CHR ''a'') (letter_i CHR ''M'' CHR ''m''))
              (Then (letter_i CHR ''P'' CHR ''p'') (letter_i CHR ''M'' CHR ''m'')))))))"
    unfolding lang_Then_iff [of _ "lit _"] lang_Then_iff [of _ "char_range _ _"]
      lang_Then_iff [of _ "Maybe _"] lang_lit_iff lang_char_range_iff
    using m w' t by blast
  with h' show ?L
    unfolding timeRegex_def s lang_Then_iff [of "h @ _"] by blast
qed


subsection \<open>The time format the handler accepts\<close>

definition schedule_sample :: "string \<Rightarrow> string \<Rightarrow> schedule_req" where
  "schedule_sample startTime endTime =
     \<lparr>s_examTitle = ''Maths'', s_date = JStr ''2025-01-15'', s_startTime = JStr startTime,
      s_endTime = JStr endTime, s_marks = JNum 100, s_price = JNum 10\<rparr>"

text \<open>
  Claim C5, as stated, fails: a start time with a tab before the suffix is not of the
  pattern \<^verbatim>\<open>H:MM AM/PM\<close> with an optional space, yet the request is answered 200.
\<close>

theorem setExamSchedule_accepts_tab:
  "\<not> rx_test spec_time_rx (''1:00'' @ [CHR 0x09] @ ''AM'') \<and>
   status (fst (setExamSchedule node_client 0
                  (schedule_sample (''1:00'' @ [CHR 0x09] @ ''AM'') ''2:00 PM'') empty_store)) = 200"
  by code_simp

lemma timeRegex_empty: "\<not> rx_test timeRegex []"
  by code_simp

lemma setExamSchedule_status:
  assumes "s_examTitle req \<noteq> []" "truthy (s_date req)" "s_marks req \<noteq> JUndefined"
    "s_price req \<noteq> JUndefined" "s_startTime req = JStr a" "s_endTime req = JStr b"
  shows "status (fst (setExamSchedule cl now req st)) =
           (if \<not> (rx_test timeRegex a \<and> rx_test timeRegex b) then 400
            else if scheduleAccepted cl now req then 200 else 500)"
proof -
  have e: "a = [] \<Longrightarrow> \<not> rx_test timeRegex a" "b = [] \<Longrightarrow> \<not> rx_test timeRegex b"
    using timeRegex_empty by simp_all
  from assms e show ?thesis
    by (auto simp: setExamSchedule_def scheduleAccepted_def saveFailed_def respond_def Let_def
        split: sum.splits option.splits)
qed

lemma setExamSchedule_rejected:
  "status (fst (setExamSchedule cl now req st)) = 400 \<Longrightarrow> snd (setExamSchedule cl now req st) = st"
  by (auto simp: setExamSchedule_def saveFailed_def respond_def Let_def
      split: if_splits sum.splits option.splits)

text \<open>
  Claim C5, amended. With the other fields present, the request is answered 400, and
  nothing is written, exactly when the start or the end time does not match
  \<^verbatim>\<open>/^(0?[1-9]|1[0-2]):[0-5][0-9]\s?(AM|PM)$/i\<close>. A request whose times match goes on
  to the writes: it is answered 200 when both store clients accept the title and the
  record, and 500 when one of them refuses. The strings that match are: an hour 1 to 9
  with or without a leading zero, or 10 to 12; a colon; a minute 00 to 59; at most one
  white-space character (a space, a tab, a line break, \<dots>); then AM or PM in any
  letter case. Every string of the pattern \<^verbatim>\<open>H:MM AM/PM\<close> of the specification
  matches; \<^verbatim>\<open>13:00 PM\<close>, \<^verbatim>\<open>1:60 AM\<close> and \<^verbatim>\<open>1:00\<close> do not.
\<close>

theorem setExamSchedule_time_format:
  "(s_examTitle req \<noteq> [] \<and> truthy (s_date req) \<and> s_marks req \<noteq> JUndefined
      \<and> s_price req \<noteq> JUndefined \<and> s_startTime req = JStr a \<and> s_endTime req = JStr b \<longrightarrow>
      (status (fst (setExamSchedule cl now req st)) = 400
         \<longleftrightarrow> \<not> (rx_test timeRegex a \<and> rx_test timeRegex b)) \<and>
      (status (fst (setExamSchedule cl now req st)) = 200
         \<longleftrightarrow> rx_test timeRegex a \<and> rx_test timeRegex b \<and> scheduleAccepted cl now req) \<and>
      (status (fst (setExamSchedule cl now req st)) = 500
         \<longleftrightarrow> rx_test timeRegex a \<and> rx_test timeRegex b \<and> \<not> scheduleAccepted cl now req) \<and>
      (status (fst (setExamSchedule cl now req st)) = 400 \<longrightarrow> snd (setExamSchedule cl now req st) = st)) \<and>
   (rx_test timeRegex s \<longleftrightarrow>
      (\<exists>h m1 m2 w x y.
        s = h @ [CHR '':'', m1, m2] @ w @ [x, y] \<and>
        ((\<exists>d. (h = [d] \<or> h = [CHR ''0'', d]) \<and> CHR ''1'' \<le> d \<and> d \<le> CHR ''9'') \<or>
         (\<exists>d. h = [CHR ''1'', d] \<and> CHR ''0'' \<le> d \<and> d \<le> CHR ''2'')) \<and>
        CHR ''0'' \<le> m1 \<and> m1 \<le> CHR ''5'' \<and> CHR ''0'' \<le> m2 \<and> m2 \<le> CHR ''9'' \<and>
        (w = [] \<or> (\<exists>c. w = [c] \<and> js_whitespace c)) \<and>
        (x = CHR ''A'' \<or> x = CHR ''a'' \<or> x = CHR ''P'' \<or> x = CHR ''p'') \<and>
        (y = CHR ''M'' \<or> y = CHR ''m''))) \<and>
   (rx_test spec_time_rx s \<longrightarrow> rx_test timeRegex s) \<and>
   \<not> rx_test timeRegex ''13:00 PM'' \<and> \<not> rx_test timeRegex ''1:60 AM'' \<and>
   \<not> rx_test timeRegex ''1:00''"
proof (intro conjI impI)
  assume a: "s_examTitle req \<noteq> [] \<and> truthy (s_date req) \<and> s_marks req \<noteq> JUndefined
      \<and> s_price req \<noteq> JUndefined \<and> s_startTime req = JStr a \<and> s_endTime req = JStr b"
  then have code: "status (fst (setExamSchedule cl now req st)) =
           (if \<not> (rx_test timeRegex a \<and> rx_test timeRegex b) then 400
            else if scheduleAccepted cl now req then 200 else 500)"
    by (intro setExamSchedule_status) simp_all
  show "status (fst (setExamSchedule cl now req st)) = 400
         \<longleftrightarrow> \<not> (rx_test timeRegex a \<and> rx_test timeRegex b)"
    unfolding code by auto
  show "status (fst (setExamSchedule cl now req st)) = 200
         \<longleftrightarrow> rx_test timeRegex a \<and> rx_test timeRegex b \<and> scheduleAccepted cl now req"
    unfolding code by auto
  show "status (fst (setExamSchedule cl now req st)) = 500
         \<longleftrightarrow> rx_test timeRegex a \<and> rx_test timeRegex b \<and> \<not> scheduleAccepted cl now req"
    unfolding code by auto
  assume "status (fst (setExamSchedule cl now req st)) = 400"
  then show "snd (setExamSchedule cl now req st) = st"
    by (rule setExamSchedule_rejected)
next
  show "rx_test timeRegex s \<longleftrightarrow>
      (\<exists>h m1 m2 w x y.
        s = h @ [CHR '':'', m1, m2] @ w @ [x, y] \<and>
        ((\<exists>d. (h = [d] \<or> h = [CHR ''0'', d]) \<and> CHR ''1'' \<le> d \<and> d \<le> CHR ''9'') \<or>
         (\<exists>d. h = [CHR ''1'', d] \<and> CHR ''0'' \<le> d \<and> d \<le> CHR ''2'')) \<and>
        CHR ''0'' \<le> m1 \<and> m1 \<le> CHR ''5'' \<and> CHR ''0'' \<le> m2 \<and> m2 \<le> CHR ''9'' \<and>
        (w = [] \<or> (\<exists>c. w = [c] \<and> js_whitespace c)) \<and>
        (x = CHR ''A'' \<or> x = CHR ''a'' \<or> x = CHR ''P'' \<or> x = CHR ''p'') \<and>
        (y = CHR ''M'' \<or> y = CHR ''m''))"
    unfolding rx_test_lang by (rule lang_timeRegex)
next
  assume "rx_test spec_time_rx s"
  then show "rx_test timeRegex s"
    unfolding rx_test_lang using spec_time_rx_sub by blast
next
  show "\<not> rx_test timeRegex ''13:00 PM''" by code_simp
  show "\<not> rx_test timeRegex ''1:60 AM''" by code_simp
  show "\<not> rx_test timeRegex ''1:00''" by code_simp
qed

lemma sample_times:
  "rx_test timeRegex ''01:45 pm''" "rx_test spec_time_rx ''1:45 PM''"
  "\<not> rx_test timeRegex ''13:00 PM''"
  by code_simp+

lemma sample_accepted:
  "scheduleAccepted node_client 0 (schedule_sample ''1:45 PM'' ''01:45 pm'')"
  "\<not> scheduleAccepted node_client 0
       ((schedule_sample ''1:45 PM'' ''01:45 pm'')\<lparr>s_examTitle := ''a/b''\<rparr>)"
  by code_simp+

text \<open>
  With the checks of the Node clients given above: the key tree takes the title
  \<^verbatim>\<open>a/b\<close> and is written, then the document store refuses it.
\<close>

lemma sample_refused_schedule:
  "status (fst (setExamSchedule node_client 0
     ((schedule_sample ''1:45 PM'' ''01:45 pm'')\<lparr>s_examTitle := ''a/b''\<rparr>) empty_store)) = 500"
  "snd (setExamSchedule node_client 0
     ((schedule_sample ''1:45 PM'' ''01:45 pm'')\<lparr>s_examTitle := ''a/b''\<rparr>) empty_store) =
     \<lparr>fsdb = [],
      rtdb = JObj [(''ExamDateTime'', JObj [(''a'', JObj [(''b'',
                JObj [(''date'', JStr ''2025-01-15''), (''startTime'', JStr ''1:45 PM''),
                      (''endTime'', JStr ''01:45 pm''), (''marks'', JNum 100), (''price'', JNum 10),
                      (''updatedAt'', JNum 0)])])])]\<rparr>"
  by code_simp+

theorem setExamSchedule_time_format_witness:
  "rx_test timeRegex ''01:45 pm'' \<and> rx_test spec_time_rx ''1:45 PM'' \<and>
   rx_test timeRegex ''1:45 PM'' \<and>
   scheduleAccepted node_client 0 (schedule_sample ''1:45 PM'' ''01:45 pm'') \<and>
   status (fst (setExamSchedule node_client 0 (schedule_sample ''1:45 PM'' ''01:45 pm'') empty_store))
     = 200 \<and>
   \<not> scheduleAccepted node_client 0
       ((schedule_sample ''1:45 PM'' ''01:45 pm'')\<lparr>s_examTitle := ''a/b''\<rparr>) \<and>
   status (fst (setExamSchedule node_client 0
       ((schedule_sample ''1:45 PM'' ''01:45 pm'')\<lparr>s_examTitle := ''a/b''\<rparr>) empty_store)) = 500 \<and>
   \<not> rx_test timeRegex ''13:00 PM'' \<and>
   status (fst (setExamSchedule node_client 0 (schedule_sample ''1:45 PM'' ''13:00 PM'') empty_store))
     = 400 \<and>
   snd (setExamSchedule node_client 0 (schedule_sample ''1:45 PM'' ''13:00 PM'') empty_store)
     = empty_store"
proof -
  note inst1 = setExamSchedule_time_format [of "schedule_sample ''1:45 PM'' ''01:45 pm''"
      "''1:45 PM''" "''01:45 pm''" node_client 0 empty_store "''1:45 PM''"]
  note inst2 = setExamSchedule_time_format [of "schedule_sample ''1:45 PM'' ''13:00 PM''"
      "''1:45 PM''" "''13:00 PM''" node_client 0 empty_store "''1:45 PM''"]
  note inst3 = setExamSchedule_time_format
      [of "(schedule_sample ''1:45 PM'' ''01:45 pm'')\<lparr>s_examTitle := ''a/b''\<rparr>"
      "''1:45 PM''" "''01:45 pm''" node_client 0 empty_store "''1:45 PM''"]
  have m: "rx_test timeRegex ''1:45 PM''"
    using inst1 sample_times by blast
  have ok: "status (fst (setExamSchedule node_client 0 (schedule_sample ''1:45 PM'' ''01:45 pm'')
                           empty_store)) = 200"
    using inst1 sample_times sample_accepted m by (simp add: schedule_sample_def)
  have refused: "status (fst (setExamSchedule node_client 0
       ((schedule_sample ''1:45 PM'' ''01:45 pm'')\<lparr>s_examTitle := ''a/b''\<rparr>) empty_store)) = 500"
    using inst3 sample_times sample_accepted m by (simp add: schedule_sample_def)
  have bad: "status (fst (setExamSchedule node_client 0 (schedule_sample ''1:45 PM'' ''13:00 PM'')
                            empty_store)) = 400 \<and>
             snd (setExamSchedule node_client 0 (schedule_sample ''1:45 PM'' ''13:00 PM'') empty_store)
               = empty_store"
    using inst2 sample_times m by (simp add: schedule_sample_def)
  from m ok refused bad sample_times sample_accepted show ?thesis by simp
qed

section \<open>Reading collections\<close>

text \<open>\<^verbatim>\<open>GET /api/syllabus\<close>: \<^verbatim>\<open>snapshot.exists()\<close> holds unless the node reads as \<open>null\<close>.\<close>

definition listSyllabus :: "store \<Rightarrow> response" where
  "listSyllabus st =
     (let snapshot = rt_get [''Syllabus''] (rtdb st) in
      if snapshot = JNull
      then respond 200 [(''message'', JStr ''No syllabus found''), (''data'', JObj []),
                        (''version'', JStr ''3.11.174'')]
      else respond 200 [(''message'', JStr ''Syllabus fetched successfully''), (''data'', snapshot),
                        (''version'', JStr ''3.11.174'')])"

text \<open>\<^verbatim>\<open>GET /api/concerns\<close>\<close>

definition listConcerns :: "store \<Rightarrow> response" where
  "listConcerns st =
     (let docs = collection_docs [''concerns''] (fsdb st) in
      if docs = [] then respond 404 [(''message'', JStr ''No concerns found'')]
      else respond 200 [(''concerns'', JArr (map (\<lambda>doc. JObj (with_id doc)) docs))])"

text \<open>\<^verbatim>\<open>GET /api/candidates\<close>\<close>

definition listCandidates :: "store \<Rightarrow> response" where
  "listCandidates st =
     (let docs = collection_docs [''candidates''] (fsdb st) in
      if docs = [] then respond 404 [(''message'', JStr ''No candidates found'')]
      else respond 200 [(''message'', JStr ''Candidates fetched successfully''),
                        (''candidates'', JArr (map (\<lambda>doc. JObj (with_id doc)) docs))])"

text \<open>
  \<^verbatim>\<open>GET /api/exams\<close>: every exam document with its own data once more under
  \<^verbatim>\<open>examDetails\<close> and its questions, in the order the store returns them.
\<close>

definition listExams :: "store \<Rightarrow> response" where
  "listExams st =
     respond 200
       [(''success'', JBool True),
        (''data'', JArr
           (map (\<lambda>examDoc.
                   JObj (obj_spread (with_id examDoc)
                           [(''examDetails'', JObj (snd examDoc)),
                            (''questions'', JArr
                               (map (\<lambda>questionDoc. JObj (with_id questionDoc))
                                  (collection_docs [''Exams'', fst examDoc, ''Questions''] (fsdb st))))]))
              (collection_docs [''Exams''] (fsdb st))))]"

text \<open>
  \<^verbatim>\<open>GET /api/all-exam-results\<close>. \<^verbatim>\<open>Object.entries\<close> throws on \<open>null\<close> and
  \<open>undefined\<close>, which the catch block answers with 500.
\<close>

definition formatExam :: "string \<times> jsval \<Rightarrow> jsval option" where
  "formatExam entry =
     (if snd entry = JNull \<or> snd entry = JUndefined then None
      else Some (JObj
        [(''examId'', JStr (fst entry)),
         (''candidates'', JArr
            (map (\<lambda>(registrationId, candidateData).
                    JObj (obj_spread [(''registrationId'', JStr registrationId)]
                            (own_entries candidateData)))
               (own_entries (snd entry))))]))"

definition candidates_length :: "jsval \<Rightarrow> int" where
  "candidates_length exam =
     (case js_prop exam ''candidates'' of JArr xs \<Rightarrow> int (length xs) | _ \<Rightarrow> 0)"

definition allExamResults :: "store \<Rightarrow> response" where
  "allExamResults st =
     (let resultsData = rt_get [''Results''] (rtdb st) in
      if \<not> truthy resultsData
      then respond 200 [(''success'', JBool True), (''message'', JStr ''No exam results found''),
                        (''data'', JObj [])]
      else
        (let formatted = map formatExam (own_entries resultsData) in
         if None \<in> set formatted
         then respond 500 [(''success'', JBool False), (''error'', JStr ''Failed to fetch exam results''),
                           (''details'', JStr ''Cannot convert undefined or null to object'')]
         else
           (let formattedResults = map the formatted in
            respond 200
              [(''success'', JBool True),
               (''message'', JStr ''Exam results fetched successfully''),
               (''data'', JArr formattedResults),
               (''metadata'', JObj
                  [(''totalExams'', JNum (int (length formattedResults))),
                   (''totalCandidates'', JNum (sum_list (map candidates_length formattedResults)))])])))"

section \<open>Deleting all candidates: \<^verbatim>\<open>DELETE /api/candidates\<close>\<close>

text \<open>
  \<^verbatim>\<open>docRef.listCollections()\<close>: the names of the collections under a document that
  hold a document, directly or further down.
\<close>

definition listCollections :: "path \<Rightarrow> fstore \<Rightarrow> string list" where
  "listCollections p fs =
     remdups (map (\<lambda>(q, d). q ! length p)
                (filter (\<lambda>(q, d). length p + 1 < length q \<and> take (length p) q = p) fs))"

text \<open>The inner loops: every document of one collection, then every collection.\<close>

definition deleteCollectionDocs :: "path \<Rightarrow> fstore \<Rightarrow> fstore" where
  "deleteCollectionDocs c fs =
     foldl (\<lambda>acc doc. doc_delete (c @ [fst doc]) acc) fs (collection_docs c fs)"

definition deleteCandidate :: "fstore \<Rightarrow> string \<times> obj \<Rightarrow> fstore" where
  "deleteCandidate fs candidateDoc =
     (let candidateDocRef = [''Candidates'', fst candidateDoc];
          answersDocRef = candidateDocRef @ [''SubCollection'', ''answers''];
          fs1 = (if doc_exists answersDocRef fs then doc_delete answersDocRef fs else fs);
          subCollections = listCollections candidateDocRef fs1;
          fs2 = foldl (\<lambda>acc name. deleteCollectionDocs (candidateDocRef @ [name]) acc) fs1 subCollections
      in doc_delete candidateDocRef fs2)"

definition deleteCandidates :: "store \<Rightarrow> response \<times> store" where
  "deleteCandidates st =
     (respond 200 [(''message'', JStr ''Candidates collection and related data deleted successfully'')],
      st\<lparr>fsdb := foldl deleteCandidate (fsdb st) (collection_docs [''Candidates''] (fsdb st))\<rparr>)"

subsection \<open>What the bulk delete leaves\<close>

lemma doc_delete_keeps:
  "p \<noteq> [] \<Longrightarrow> hd p = ''Candidates'' \<Longrightarrow>
     filter (\<lambda>(q, d). q = [] \<or> hd q \<noteq> ''Candidates'') (doc_delete p fs)
       = filter (\<lambda>(q, d). q = [] \<or> hd q \<noteq> ''Candidates'') fs"
  unfolding doc_delete_def filter_filter
  by (rule filter_cong [OF refl]) auto

lemma deleteCollectionDocs_keeps:
  assumes "c \<noteq> []" "hd c = ''Candidates''"
  shows "filter (\<lambda>(q, d). q = [] \<or> hd q \<noteq> ''Candidates'') (deleteCollectionDocs c fs)
           = filter (\<lambda>(q, d). q = [] \<or> hd q \<noteq> ''Candidates'') fs"
proof -
  have "filter (\<lambda>(q, d). q = [] \<or> hd q \<noteq> ''Candidates'')
          (foldl (\<lambda>acc doc. doc_delete (c @ [fst doc]) acc) fs docs)
        = filter (\<lambda>(q, d). q = [] \<or> hd q \<noteq> ''Candidates'') fs" for docs :: "(string \<times> obj) list"
    using assms by (induction docs arbitrary: fs) (simp_all add: doc_delete_keeps)
  then show ?thesis by (simp add: deleteCollectionDocs_def)
qed

lemma deleteCandidate_keeps:
  "filter (\<lambda>(q, d). q = [] \<or> hd q \<noteq> ''Candidates'') (deleteCandidate fs doc)
     = filter (\<lambda>(q, d). q = [] \<or> hd q \<noteq> ''Candidates'') fs"
proof -
  have sub: "filter (\<lambda>(q, d). q = [] \<or> hd q \<noteq> ''Candidates'')
               (foldl (\<lambda>acc name. deleteCollectionDocs [''Candidates'', fst doc, name] acc) fs1 names)
             = filter (\<lambda>(q, d). q = [] \<or> hd q \<noteq> ''Candidates'') fs1"
    for fs1 :: fstore and names :: "string list"
    by (induction names arbitrary: fs1) (simp_all add: deleteCollectionDocs_keeps)
  show ?thesis
    unfolding deleteCandidate_def Let_def
    by (simp add: doc_delete_keeps sub)
qed

lemma deleteCandidates_keeps:
  "filter (\<lambda>(q, d). q = [] \<or> hd q \<noteq> ''Candidates'') (fsdb (snd (deleteCandidates st)))
     = filter (\<lambda>(q, d). q = [] \<or> hd q \<noteq> ''Candidates'') (fsdb st)"
proof -
  have "filter (\<lambda>(q, d). q = [] \<or> hd q \<noteq> ''Candidates'') (foldl deleteCandidate fs docs)
        = filter (\<lambda>(q, d). q = [] \<or> hd q \<noteq> ''Candidates'') fs" for fs docs
    by (induction docs arbitrary: fs) (simp_all add: deleteCandidate_keeps)
  then show ?thesis by (simp add: deleteCandidates_def)
qed

lemma collection_docs_filter:
  assumes "c \<noteq> []" "hd c \<noteq> ''Candidates''"
  shows "collection_docs c (filter (\<lambda>(q, d). q = [] \<or> hd q \<noteq> ''Candidates'') fs)
           = collection_docs c fs"
proof -
  have "hd q = hd c" if "q \<noteq> []" "butlast q = c" for q :: path
    using that assms(1) by (cases q) (auto split: if_splits)
  then have "filter (\<lambda>(p, d). p \<noteq> [] \<and> butlast p = c)
               (filter (\<lambda>(q, d). q = [] \<or> hd q \<noteq> ''Candidates'') fs)
             = filter (\<lambda>(p, d). p \<noteq> [] \<and> butlast p = c) fs"
    unfolding filter_filter using assms(2)
    by (intro filter_cong [OF refl]) auto
  then show ?thesis by (simp add: collection_docs_def)
qed

lemma deleteCandidates_other_collections:
  assumes "c \<noteq> []" "hd c \<noteq> ''Candidates''"
  shows "collection_docs c (fsdb (snd (deleteCandidates st))) = collection_docs c (fsdb st)"
  using collection_docs_filter [OF assms, of "fsdb (snd (deleteCandidates st))"]
    collection_docs_filter [OF assms, of "fsdb st"]
  by (simp add: deleteCandidates_keeps)

text \<open>On a store that has the collection \<^verbatim>\<open>Candidates\<close>, its documents and theirs go.\<close>

definition upper_store :: store where
  "upper_store =
    \<lparr>fsdb =
       [([''Candidates'', ''R1''], [(''candidateName'', JStr ''Asha'')]),
        ([''Candidates'', ''R1'', ''SubCollection'', ''answers''], [(''a'', JNum 1)]),
        ([''Candidates'', ''R1'', ''answers'', ''a1''], [(''order'', JNum 1)]),
        ([''Candidates'', ''R1'', ''answers'', ''a2''], [(''order'', JNum 2)]),
        ([''Candidates'', ''R2''], [(''candidateName'', JStr ''Ravi'')]),
        ([''candidates'', ''R3''], [(''candidateName'', JStr ''Lower'')])],
     rtdb = JNull\<rparr>"

lemma deleteCandidates_upper:
  "fsdb (snd (deleteCandidates upper_store)) = [([''candidates'', ''R3''], [(''candidateName'', JStr ''Lower'')])]"
  by code_simp

text \<open>
  Claim C4 at a store whose candidates are where the other endpoints read and write
  them, in the collection \<^verbatim>\<open>candidates\<close>: the bulk delete answers 200 and leaves the
  store as it was; both candidates and the answers of the first are still there, and the
  list endpoint still returns the candidates. The handler works on the collection
  \<^verbatim>\<open>Candidates\<close>.
\<close>

theorem deleteCandidates_leaves_candidates:
  "status (fst (deleteCandidates demo_store)) = 200 \<and>
   snd (deleteCandidates demo_store) = demo_store \<and>
   map fst (collection_docs [''candidates''] (fsdb (snd (deleteCandidates demo_store))))
     = [''R1'', ''R2''] \<and>
   map fst (collection_docs [''candidates'', ''R1'', ''answers'']
              (fsdb (snd (deleteCandidates demo_store)))) = [''a1'', ''a2''] \<and>
   status (listCandidates (snd (deleteCandidates demo_store))) = 200"
  by code_simp

subsection \<open>Empty collections and absent records\<close>

text \<open>
  Claim C3, as stated, fails: with no candidate document in the store, the list of
  candidates is answered 404, not with a success and an empty payload.
\<close>

theorem listCandidates_empty_not_found:
  "collection_docs [''candidates''] (fsdb empty_store) = [] \<and>
   listCandidates empty_store = respond 404 [(''message'', JStr ''No candidates found'')]"
  by code_simp


text \<open>
  Claim C3, amended. On an empty collection the lists of syllabus links, of all results
  and of exams are answered 200 with an empty payload; the lists of candidates and of
  concerns are answered 404, and 200 as soon as there is a document. The single-item
  read of an exam's schedule is answered 404 when no record is stored under the title
  (and 500 when the key-tree client refuses the title).
\<close>

theorem reads_of_nothing:
  "(rt_get [''Syllabus''] (rtdb st) = JNull \<longrightarrow>
      listSyllabus st = respond 200 [(''message'', JStr ''No syllabus found''), (''data'', JObj []),
                                      (''version'', JStr ''3.11.174'')]) \<and>
   (rt_get [''Results''] (rtdb st) = JNull \<longrightarrow>
      allExamResults st = respond 200 [(''success'', JBool True),
                                        (''message'', JStr ''No exam results found''),
                                        (''data'', JObj [])]) \<and>
   (collection_docs [''Exams''] (fsdb st) = [] \<longrightarrow>
      listExams st = respond 200 [(''success'', JBool True), (''data'', JArr [])]) \<and>
   (collection_docs [''candidates''] (fsdb st) = [] \<longrightarrow>
      listCandidates st = respond 404 [(''message'', JStr ''No candidates found'')]) \<and>
   (collection_docs [''candidates''] (fsdb st) \<noteq> [] \<longrightarrow> status (listCandidates st) = 200) \<and>
   (collection_docs [''concerns''] (fsdb st) = [] \<longrightarrow>
      listConcerns st = respond 404 [(''message'', JStr ''No concerns found'')]) \<and>
   (collection_docs [''concerns''] (fsdb st) \<noteq> [] \<longrightarrow> status (listConcerns st) = 200) \<and>
   (rt_child cl [''ExamDateTime''] examTitle = Inr examDateTimeRef
      \<and> rt_get examDateTimeRef (rtdb st) = JNull \<longrightarrow>
      getExamSchedule cl examTitle st = respond 404 [(''error'', JStr ''Exam date and time not found'')]) \<and>
   (rt_child cl [''ExamDateTime''] examTitle = Inl message \<longrightarrow>
      status (getExamSchedule cl examTitle st) = 500)"
  by (simp add: listSyllabus_def allExamResults_def listExams_def listCandidates_def listConcerns_def
      getExamSchedule_def respond_def)

theorem reads_of_nothing_witness:
  "rt_get [''Syllabus''] (rtdb empty_store) = JNull \<and>
   status (listSyllabus empty_store) = 200 \<and> js_prop (body (listSyllabus empty_store)) ''data'' = JObj [] \<and>
   rt_get [''Results''] (rtdb empty_store) = JNull \<and>
   status (allExamResults empty_store) = 200 \<and>
   js_prop (body (allExamResults empty_store)) ''data'' = JObj [] \<and>
   collection_docs [''Exams''] (fsdb empty_store) = [] \<and>
   listExams empty_store = respond 200 [(''success'', JBool True), (''data'', JArr [])] \<and>
   collection_docs [''candidates''] (fsdb empty_store) = [] \<and>
   status (listCandidates empty_store) = 404 \<and>
   collection_docs [''candidates''] (fsdb demo_store) \<noteq> [] \<and>
   status (listCandidates demo_store) = 200 \<and>
   collection_docs [''concerns''] (fsdb empty_store) = [] \<and>
   status (listConcerns empty_store) = 404 \<and>
   rt_child node_client [''ExamDateTime''] ''Maths'' = Inr [''ExamDateTime'', ''Maths''] \<and>
   rt_get [''ExamDateTime'', ''Maths''] (rtdb empty_store) = JNull \<and>
   status (getExamSchedule node_client ''Maths'' empty_store) = 404 \<and>
   isl (rt_child node_client [''ExamDateTime''] ''a.b'') \<and>
   status (getExamSchedule node_client ''a.b'' empty_store) = 500"
proof -
  have e: "rt_get [''Syllabus''] (rtdb empty_store) = JNull"
    "rt_get [''Results''] (rtdb empty_store) = JNull"
    "collection_docs [''Exams''] (fsdb empty_store) = []"
    "collection_docs [''candidates''] (fsdb empty_store) = []"
    "collection_docs [''concerns''] (fsdb empty_store) = []"
    "rt_child node_client [''ExamDateTime''] ''Maths'' = Inr [''ExamDateTime'', ''Maths'']"
    "rt_get [''ExamDateTime'', ''Maths''] (rtdb empty_store) = JNull"
    "rt_child node_client [''ExamDateTime''] ''a.b''
       = Inl ''Paths must be non-empty strings and can not contain ., #, $, [, or ]''"
    by code_simp+
  have d: "collection_docs [''candidates''] (fsdb demo_store) \<noteq> []"
    by code_simp
  from reads_of_nothing [of empty_store node_client "''Maths''" "[''ExamDateTime'', ''Maths'']"] e
    reads_of_nothing [of demo_store node_client "''Maths''"] d
    reads_of_nothing [of empty_store node_client "''a.b''" _
      "''Paths must be non-empty strings and can not contain ., #, $, [, or ]''"]
  show ?thesis
    by (simp add: respond_def js_prop_def js_get_def)
qed

end
